theory Spec2Isabelle
  imports Main "HOL-Library.Char_ord" "HOL-Library.List_Lexorder"
begin

section \<open>JavaScript strings, arrays and sets\<close>

text \<open>
  A JavaScript string is modelled as a \<^typ>\<open>string\<close> whose characters are the code units
  below 256. The default comparison of \<^verbatim>\<open>Array.prototype.sort\<close> orders strings by their
  code units, a proper prefix first: this is the lexicographic order on \<^typ>\<open>char list\<close>
  over the order of the character codes.
\<close>

definition startsWith :: "string \<Rightarrow> string \<Rightarrow> bool" where
  "startsWith s p = (take (length p) s = p)"

definition isWhiteSpace :: "char \<Rightarrow> bool" where
  "isWhiteSpace c = (c \<in> set [CHR 0x09, CHR 0x0A, CHR 0x0B, CHR 0x0C, CHR 0x0D, CHR 0x20, CHR 0xA0])"

definition trimStart :: "string \<Rightarrow> string" where
  "trimStart s = dropWhile isWhiteSpace s"

definition trimEnd :: "string \<Rightarrow> string" where
  "trimEnd s = rev (dropWhile isWhiteSpace (rev s))"

definition trim :: "string \<Rightarrow> string" where
  "trim s = trimEnd (trimStart s)"

text \<open>\<^verbatim>\<open>s.split(c)\<close> for a separator of one character: the empty string gives \<^verbatim>\<open>['']\<close>.\<close>

fun split :: "char \<Rightarrow> string \<Rightarrow> string list" where
  "split c [] = [[]]"
| "split c (x # xs) =
     (if x = c then [] # split c xs
      else (case split c xs of [] \<Rightarrow> [[x]] | y # ys \<Rightarrow> (x # y) # ys))"

text \<open>\<^verbatim>\<open>xs.join(sep)\<close>.\<close>

fun join :: "string \<Rightarrow> string list \<Rightarrow> string" where
  "join sep [] = []"
| "join sep [x] = x"
| "join sep (x # y # ys) = x @ sep @ join sep (y # ys)"

text \<open>
  A \<^verbatim>\<open>Set\<close> of strings is the list of its members in insertion order, which is the order
  \<^verbatim>\<open>Array.from\<close> and the spread operator read it in.
\<close>

definition set_add :: "string \<Rightarrow> string list \<Rightarrow> string list" where
  "set_add x xs = (if x \<in> set xs then xs else xs @ [x])"

definition new_Set :: "string list \<Rightarrow> string list" where
  "new_Set xs = fold set_add xs []"

text \<open>Decimal digits of a number, as a template string prints it.\<close>

fun string_of_nat :: "nat \<Rightarrow> string" where
  "string_of_nat n =
     (if n < 10 then [''0123456789'' ! n]
      else string_of_nat (n div 10) @ [''0123456789'' ! (n mod 10)])"

text \<open>A value that may be \<^verbatim>\<open>undefined\<close>, as a template string prints it.\<close>

definition str :: "string option \<Rightarrow> string" where
  "str v = (case v of None \<Rightarrow> ''undefined'' | Some s \<Rightarrow> s)"

text \<open>Truthiness of a string that may be \<^verbatim>\<open>undefined\<close>, and of an exit status that may be \<^verbatim>\<open>null\<close>.\<close>

definition truthy :: "string option \<Rightarrow> bool" where
  "truthy v = (case v of None \<Rightarrow> False | Some s \<Rightarrow> s \<noteq> [])"

definition truthyStatus :: "nat option \<Rightarrow> bool" where
  "truthyStatus v = (case v of None \<Rightarrow> False | Some n \<Rightarrow> n \<noteq> 0)"

definition statusString :: "nat option \<Rightarrow> string" where
  "statusString v = (case v of None \<Rightarrow> ''null'' | Some n \<Rightarrow> string_of_nat n)"

subsection \<open>\<^verbatim>\<open>path.join\<close> of the POSIX \<^verbatim>\<open>path\<close> module\<close>

text \<open>
  \<^verbatim>\<open>normalizeString(path, allowAboveRoot, '/', isPosixPathSeparator)\<close> of Node's \<^verbatim>\<open>path\<close>
  module reads the path segment by segment and keeps a stack of segments: an empty segment and
  \<^verbatim>\<open>.\<close> are skipped, \<^verbatim>\<open>..\<close> removes the last segment unless there is none or it is
  \<^verbatim>\<open>..\<close> itself, in which case \<^verbatim>\<open>..\<close> is kept when it is allowed above the root and
  dropped otherwise. The result is the list of segments that Node holds joined by \<^verbatim>\<open>/\<close>.
\<close>

definition normalizeStep :: "bool \<Rightarrow> string list \<Rightarrow> string \<Rightarrow> string list" where
  "normalizeStep allowAboveRoot res segment =
     (if segment = [] \<or> segment = ''.'' then res
      else if segment = ''..'' then
        (if res \<noteq> [] \<and> last res \<noteq> ''..'' then butlast res
         else if allowAboveRoot then res @ [''..''] else res)
      else res @ [segment])"

definition normalizeString :: "string \<Rightarrow> bool \<Rightarrow> string list" where
  "normalizeString path allowAboveRoot = foldl (normalizeStep allowAboveRoot) [] (split (CHR ''/'') path)"

definition isAbsolute :: "string \<Rightarrow> bool" where
  "isAbsolute path = (path \<noteq> [] \<and> hd path = CHR ''/'')"

text \<open>\<^verbatim>\<open>path.normalize\<close>: the empty path is \<^verbatim>\<open>.\<close>, and a trailing separator is kept.\<close>

definition normalize :: "string \<Rightarrow> string" where
  "normalize path =
     (if path = [] then ''.''
      else
        (let trailingSeparator = (last path = CHR ''/'');
             res = join ''/'' (normalizeString path (\<not> isAbsolute path)) in
         if res = [] then
           (if isAbsolute path then ''/'' else if trailingSeparator then ''./'' else ''.'')
         else
           (if isAbsolute path then ''/'' else []) @ res @ (if trailingSeparator then ''/'' else [])))"

text \<open>
  \<^verbatim>\<open>path.join(...args)\<close>: the non-empty arguments joined by \<^verbatim>\<open>/\<close> and normalised, and
  \<^verbatim>\<open>.\<close> when there is none.
\<close>

definition path_join :: "string list \<Rightarrow> string" where
  "path_join args =
     (case filter (\<lambda>arg. arg \<noteq> []) args of
        [] \<Rightarrow> ''.''
      | joined \<Rightarrow> normalize (join ''/'' joined))"

text \<open>
  The path \<open>q\<close> names the directory \<open>p\<close> or something inside it: both are absolute or both
  are relative, the segments of \<open>p\<close> are the first segments of \<open>q\<close>, and the rest of \<open>q\<close>
  does not climb out again. Relative paths are compared as they are written, both being read
  from the same working directory.
\<close>

definition inside :: "string \<Rightarrow> string \<Rightarrow> bool" where
  "inside q p =
     (let ps = normalizeString p (\<not> isAbsolute p);
          qs = normalizeString q (\<not> isAbsolute q) in
      isAbsolute q = isAbsolute p \<and> take (length ps) qs = ps \<and> ''..'' \<notin> set (drop (length ps) qs))"

subsection \<open>\<^verbatim>\<open>JSON.stringify\<close> on an array of strings\<close>

definition hexDigit :: "nat \<Rightarrow> char" where
  "hexDigit d = (if d < 10 then char_of (48 + d) else char_of (87 + d))"

definition json_escape :: "char \<Rightarrow> string" where
  "json_escape c =
     (if c = CHR 0x22 then [CHR 0x5C, CHR 0x22]
      else if c = CHR 0x5C then [CHR 0x5C, CHR 0x5C]
      else if c = CHR 0x08 then [CHR 0x5C, CHR ''b'']
      else if c = CHR 0x0C then [CHR 0x5C, CHR ''f'']
      else if c = CHR 0x0A then [CHR 0x5C, CHR ''n'']
      else if c = CHR 0x0D then [CHR 0x5C, CHR ''r'']
      else if c = CHR 0x09 then [CHR 0x5C, CHR ''t'']
      else if (of_char c :: nat) < 32 then
        [CHR 0x5C, CHR ''u'', CHR ''0'', CHR ''0'',
         hexDigit ((of_char c :: nat) div 16), hexDigit ((of_char c :: nat) mod 16)]
      else [c])"

definition json_quote :: "string \<Rightarrow> string" where
  "json_quote s = CHR 0x22 # concat (map json_escape s) @ [CHR 0x22]"

definition JSON_stringify :: "string list \<Rightarrow> string" where
  "JSON_stringify xs = ''['' @ join '','' (map json_quote xs) @ '']''"

section \<open>Errors, effects and the environment\<close>

text \<open>
  A thrown value is an \<^verbatim>\<open>Error\<close> the code builds itself, or an error the platform raises
  (a rejected \<^verbatim>\<open>fetch\<close>, a failed \<^verbatim>\<open>execSync\<close>, a property read on \<^verbatim>\<open>undefined\<close>).
\<close>

datatype error = Error string | TypeError string

definition error_toString :: "error \<Rightarrow> string" where
  "error_toString e = (case e of Error m \<Rightarrow> ''Error: '' @ m | TypeError m \<Rightarrow> ''TypeError: '' @ m)"

text \<open>Every access to the file system, the network, a subprocess or the console, in order.\<close>

datatype event =
    ExistsSync string
  | ReadFileSync string
  | WriteFileSync string string
  | AppendFileSync string string
  | RmSync string
  | MkdirSync string
  | Require string
  | SpawnSync string "string list"
  | ExecSync string
  | Fetch string
  | HttpsGet string
  | SetTimeout nat
  | DebGeneratePackageDeps "string list" string string
  | RpmGeneratePackageDeps "string list"
  | ConsoleLog string
  | ConsoleError string
  | ConsoleWarn string

text \<open>
  The state: the files this code reads and writes itself, by path, and the effects so far.
  What a subprocess (\<^verbatim>\<open>tar\<close>, \<^verbatim>\<open>curl\<close>) writes is not tracked; directories are not tracked,
  and \<^verbatim>\<open>mkdirSync\<close> is taken to succeed.
\<close>

record world =
  files :: "string \<rightharpoonup> string"
  trace :: "event list"

definition emit :: "event \<Rightarrow> world \<Rightarrow> world" where
  "emit e w = w\<lparr>trace := trace w @ [e]\<rparr>"

definition emits :: "event list \<Rightarrow> world \<Rightarrow> world" where
  "emits es w = w\<lparr>trace := trace w @ es\<rparr>"

definition writeFileSync :: "string \<Rightarrow> string \<Rightarrow> world \<Rightarrow> world" where
  "writeFileSync p d w = emit (WriteFileSync p d) (w\<lparr>files := (files w)(p \<mapsto> d)\<rparr>)"

definition appendFileSync :: "string \<Rightarrow> string \<Rightarrow> world \<Rightarrow> world" where
  "appendFileSync p d w =
     emit (AppendFileSync p d)
       (w\<lparr>files := (files w)(p \<mapsto> (case files w p of None \<Rightarrow> d | Some old \<Rightarrow> old @ d))\<rparr>)"

text \<open>\<^verbatim>\<open>fs.rmSync(p)\<close> on a file, and \<^verbatim>\<open>fs.rmSync(p, { recursive: true, force: true })\<close>.\<close>

definition rmSync :: "string \<Rightarrow> world \<Rightarrow> world" where
  "rmSync p w = emit (RmSync p) (w\<lparr>files := (files w)(p := None)\<rparr>)"

definition rmSyncRecursive :: "string \<Rightarrow> world \<Rightarrow> world" where
  "rmSyncRecursive p w =
     emit (RmSync p)
       (w\<lparr>files := (\<lambda>q. if inside q p then None else files w q)\<rparr>)"

definition mkdirSync :: "string \<Rightarrow> world \<Rightarrow> world" where
  "mkdirSync p w = emit (MkdirSync p) w"

text \<open>
  What \<^verbatim>\<open>spawnSync\<close> returns: the exit status is \<^verbatim>\<open>null\<close> (\<open>None\<close>) when the process was
  terminated by a signal.
\<close>

record spawn_result =
  status :: "nat option"
  stdout :: string
  stderr :: string

text \<open>A \<^verbatim>\<open>Response\<close> of \<^verbatim>\<open>fetch\<close>; reading its body may reject.\<close>

record response =
  resp_ok :: bool
  resp_status :: nat
  resp_arrayBuffer :: "error + string"

text \<open>
  What the outside delivers to one attempt of \<^verbatim>\<open>fetchUrl\<close>: the release request (rejected on
  a network error, or when the 30 s timer aborts it), the request of an asset by its URL, and
  the \<^verbatim>\<open>tar\<close> subprocess on a command and its input (\<^verbatim>\<open>execSync\<close> throws unless it exits 0).
\<close>

record attempt_io =
  releaseFetch :: "error + response"
  assetFetch :: "string \<Rightarrow> error + response"
  execTar :: "string \<Rightarrow> string \<Rightarrow> error option"

text \<open>An entry of the sysroot manifest \<^verbatim>\<open>sysroots.json\<close>.\<close>

record sysrootDict =
  Tarball :: string
  Sha1Sum :: string
  SysrootDir :: string

text \<open>
  The collaborators and inputs that are not part of these two files: the architecture type
  guards, the reference tables, the extractors, the product name, the subprocesses, the
  network, the hash functions, the colour functions and the process environment.
  \<open>checksumLines\<close> is \<^verbatim>\<open>build/checksums/vscode-sysroot.txt\<close>, each line split at white space
  into its first field and its second (\<open>None\<close> when the line has one field only);
  \<open>yarnrc\<close> holds what the two regular expressions of \<^verbatim>\<open>getElectronVersion\<close> capture;
  \<open>sysrootInfo\<close> is the manifest as \<^verbatim>\<open>require\<close> reads it after the download;
  \<open>httpsGet i url\<close> is download attempt \<open>i\<close>: the chunks received, and the message of the
  error that ended it (\<open>None\<close> when the response ended normally).
\<close>

record env =
  isDebianArchString :: "string \<Rightarrow> bool"
  isRpmArchString :: "string \<Rightarrow> bool"
  debReferenceGeneratedDepsByArch :: "string \<rightharpoonup> string list"
  rpmReferenceGeneratedDepsByArch :: "string \<rightharpoonup> string list"
  debGeneratePackageDeps :: "string list \<Rightarrow> string \<Rightarrow> string \<Rightarrow> error + string list list"
  rpmGeneratePackageDeps :: "string list \<Rightarrow> error + string list list"
  tunnelApplicationName :: string
  spawnFind :: "string list \<Rightarrow> spawn_result"
  REPO_ROOT :: string
  tmpdir :: string
  VSCODE_SYSROOT_DIR :: "string option"
  checksumLines :: "(string \<times> string option) list"
  github :: "nat \<Rightarrow> attempt_io"
  parseAssets :: "string \<Rightarrow> error + (string \<times> string) list"
  sha256 :: "string \<Rightarrow> string"
  sha1 :: "string \<Rightarrow> string"
  magenta :: "string \<Rightarrow> string"
  cyan :: "string \<Rightarrow> string"
  yarnrc :: "string option \<times> string option"
  spawnCurl :: "string list \<Rightarrow> spawn_result"
  sysrootInfo :: "string \<rightharpoonup> sysrootDict"
  httpsGet :: "nat \<Rightarrow> string \<Rightarrow> string list \<times> string option"
  spawnTar :: "string list \<Rightarrow> spawn_result"

section \<open>install-sysroot: the Sysroot Provisioner\<close>

definition URL_PREFIX :: string where
  "URL_PREFIX = ''https://msftelectron.blob.core.windows.net''"

definition URL_PATH :: string where
  "URL_PATH = ''sysroots/toolchain''"

text \<open>\<^verbatim>\<open>getElectronVersion\<close>: indexing the result of a regular expression that did not match throws.\<close>

definition getElectronVersion :: "env \<Rightarrow> world \<Rightarrow> (error + string \<times> string) \<times> world" where
  "getElectronVersion env w =
     (let w1 = emit (ReadFileSync (path_join [REPO_ROOT env, ''.yarnrc''])) w in
      case yarnrc env of
        (None, _) \<Rightarrow> (Inl (TypeError ''Cannot read properties of null''), w1)
      | (Some electronVersion, None) \<Rightarrow> (Inl (TypeError ''Cannot read properties of null''), w1)
      | (Some electronVersion, Some msBuildId) \<Rightarrow> (Inr (electronVersion, msBuildId), w1))"

text \<open>
  \<^verbatim>\<open>getSha\<close> feeds the file to the hash 1 MB at a time: the digest is that of the whole content.
\<close>

definition getSha :: "env \<Rightarrow> string \<Rightarrow> world \<Rightarrow> (error + string) \<times> world" where
  "getSha env filename w =
     (let w1 = emit (ReadFileSync filename) w in
      case files w filename of
        None \<Rightarrow> (Inl (Error (''ENOENT: no such file or directory, open '' @ filename)), w1)
      | Some content \<Rightarrow> (Inr (sha1 env content), w1))"

text \<open>\<^verbatim>\<open>getVSCodeSysrootChecksum\<close>: the checksum of the first line whose name is the expected one.\<close>

fun findChecksum :: "(string \<times> string option) list \<Rightarrow> string option \<Rightarrow> string option" where
  "findChecksum [] expectedName = None"
| "findChecksum ((checksum, name) # lines) expectedName =
     (if name = expectedName then Some checksum else findChecksum lines expectedName)"

definition getVSCodeSysrootChecksum :: "env \<Rightarrow> string option \<Rightarrow> world \<Rightarrow> string option \<times> world" where
  "getVSCodeSysrootChecksum env expectedName w =
     (findChecksum (checksumLines env) expectedName,
      emit (ReadFileSync (path_join [REPO_ROOT env, ''build'', ''checksums'', ''vscode-sysroot.txt''])) w)"

record options =
  checksumSha256 :: "string option"
  assetName :: "string option"
  dest :: string

definition version :: string where
  "version = ''20231122-245579''"

definition releaseUrl :: string where
  "releaseUrl = ''https://api.github.com/repos/Microsoft/vscode-linux-build-agent/releases/tags/v'' @ version"

definition okStatus :: "response \<Rightarrow> bool" where
  "okStatus r = (resp_ok r \<and> (resp_status r \<ge> 200 \<and> resp_status r < 300))"

text \<open>
  One attempt of \<^verbatim>\<open>fetchUrl\<close>, the body of its outer \<^verbatim>\<open>try\<close>: the result (\<open>Inl\<close> what it
  throws) and the effects it had up to there.
\<close>

definition fetchAttempt :: "env \<Rightarrow> attempt_io \<Rightarrow> options \<Rightarrow> (error + unit) \<times> event list" where
  "fetchAttempt env io opts =
     (let ev0 = [Fetch releaseUrl] in
      case releaseFetch io of
        Inl e \<Rightarrow> (Inl e, ev0)
      | Inr response \<Rightarrow>
          if okStatus response then
            (let ev1 = ev0 @ [ConsoleLog (''Fetch completed: Status '' @ string_of_nat (resp_status response) @ ''.'')] in
             case resp_arrayBuffer response of
               Inl e \<Rightarrow> (Inl e, ev1)
             | Inr contents \<Rightarrow>
                 (case parseAssets env contents of
                    Inl e \<Rightarrow> (Inl e, ev1)
                  | Inr assets \<Rightarrow>
                      (case find (\<lambda>a. Some (fst a) = assetName opts) assets of
                         None \<Rightarrow>
                           (Inl (Error (''Could not find asset in release of Microsoft/vscode-linux-build-agent @ '' @ version)), ev1)
                       | Some asset \<Rightarrow>
                           (let url = snd asset;
                                ev2 = ev1 @ [ConsoleLog (''Found asset '' @ str (assetName opts) @ '' @ '' @ url @ ''.''), Fetch url] in
                            case assetFetch io url of
                              Inl e \<Rightarrow> (Inl e, ev2)
                            | Inr assetResponse \<Rightarrow>
                                if okStatus assetResponse then
                                  (case resp_arrayBuffer assetResponse of
                                     Inl e \<Rightarrow> (Inl e, ev2)
                                   | Inr assetContents \<Rightarrow>
                                       (let ev3 = ev2 @ [ConsoleLog (''Fetched response body buffer: '' @
                                                    magenta env (string_of_nat (length assetContents) @ '' bytes''))];
                                            actualSHA256Checksum = sha256 env assetContents in
                                        if truthy (checksumSha256 opts) \<and> Some actualSHA256Checksum \<noteq> checksumSha256 opts then
                                          (Inl (Error (''Checksum mismatch for '' @ cyan env url @ '' (expected '' @
                                                  str (checksumSha256 opts) @ '', actual '' @ actualSHA256Checksum @ ''))'')), ev3)
                                        else
                                          (let tarCommand = ''tar -xz -C '' @ dest opts;
                                               ev4 = ev3 @ [ConsoleLog (''Verified SHA256 checksums match for '' @ cyan env url),
                                                            ExecSync tarCommand] in
                                           case execTar io tarCommand assetContents of
                                             Some e \<Rightarrow> (Inl e, ev4)
                                           | None \<Rightarrow> (Inr (), ev4 @ [ConsoleLog ''Fetch complete!'']))))
                                else
                                  (Inl (Error (''Request '' @ magenta env url @ '' failed with status code: '' @
                                          string_of_nat (resp_status assetResponse))), ev2)))))
          else
            (Inl (Error (''Request '' @ magenta env ''https://api.github.com'' @ '' failed with status code: '' @
                    string_of_nat (resp_status response))), ev0))"

text \<open>
  \<^verbatim>\<open>fetchUrl(options, retries, retryDelay)\<close>: \<open>io 0\<close> is what the outside delivers to this
  attempt, \<open>io 1\<close> to the next one, and so on.
\<close>

fun fetchUrl :: "env \<Rightarrow> (nat \<Rightarrow> attempt_io) \<Rightarrow> options \<Rightarrow> nat \<Rightarrow> nat \<Rightarrow> world \<Rightarrow> (error + unit) \<times> world" where
  "fetchUrl env io opts retries retryDelay w =
     (case fetchAttempt env (io 0) opts of
        (Inr u, evs) \<Rightarrow> (Inr u, emits evs w)
      | (Inl e, evs) \<Rightarrow>
          if retries > 0 then
            fetchUrl env (\<lambda>k. io (Suc k)) opts (retries - 1) retryDelay
              (emits (evs @ [ConsoleLog (''Fetching failed: '' @ error_toString e), SetTimeout retryDelay]) w)
          else (Inl e, emits evs w))"

declare fetchUrl.simps [simp del]

text \<open>The default parameters: \<^verbatim>\<open>retries = 10, retryDelay = 1000\<close>.\<close>

definition fetchUrlDefault :: "env \<Rightarrow> (nat \<Rightarrow> attempt_io) \<Rightarrow> options \<Rightarrow> world \<Rightarrow> (error + unit) \<times> world" where
  "fetchUrlDefault env io opts w = fetchUrl env io opts 10 1000 w"

text \<open>The \<^verbatim>\<open>switch\<close> of \<^verbatim>\<open>getVSCodeSysroot\<close>: without a matching case both names stay \<^verbatim>\<open>undefined\<close>.\<close>

definition archNames :: "string \<Rightarrow> string option \<times> string option" where
  "archNames arch =
     (if arch = ''amd64'' then (Some ''x86_64-linux-gnu.tar.gz'', Some ''x86_64-linux-gnu'')
      else if arch = ''arm64'' then (Some ''aarch64-linux-gnu.tar.gz'', Some ''aarch64-linux-gnu'')
      else if arch = ''armhf'' then (Some ''arm-rpi-linux-gnueabihf.tar.gz'', Some ''arm-rpi-linux-gnueabihf'')
      else (None, None))"

definition vscodeSysrootDir :: "env \<Rightarrow> string \<Rightarrow> string" where
  "vscodeSysrootDir env arch =
     (case VSCODE_SYSROOT_DIR env of
        Some d \<Rightarrow> d
      | None \<Rightarrow> path_join [tmpdir env, ''vscode-'' @ arch @ ''-sysroot''])"

definition vscodeSysrootResult :: "env \<Rightarrow> string \<Rightarrow> string" where
  "vscodeSysrootResult env arch =
     (let triple = snd (archNames arch)
      in vscodeSysrootDir env arch @ ''/'' @ str triple @ ''/'' @ str triple @ ''/sysroot'')"

text \<open>
  \<^verbatim>\<open>getVSCodeSysroot\<close> (Variant A). Writing \<^verbatim>\<open>undefined\<close> to a file throws.
\<close>

definition getVSCodeSysroot :: "env \<Rightarrow> string \<Rightarrow> world \<Rightarrow> (error + string) \<times> world" where
  "getVSCodeSysroot env arch w =
     (let expectedName = fst (archNames arch);
          (checksumSha256, w1) = getVSCodeSysrootChecksum env expectedName w in
      if \<not> truthy checksumSha256 then
        (Inl (Error (''Could not find checksum for '' @ str expectedName)), w1)
      else
        (let sysroot = vscodeSysrootDir env arch;
             stamp = path_join [sysroot, ''.stamp''];
             result = vscodeSysrootResult env arch;
             exists = (files w1 stamp \<noteq> None);
             w2 = (if exists then emits [ExistsSync stamp, ReadFileSync stamp] w1 else emit (ExistsSync stamp) w1) in
         if exists \<and> files w1 stamp = expectedName then (Inr result, w2)
         else
           (let w3 = emit (ConsoleLog (''Installing '' @ arch @ '' root image: '' @ sysroot)) w2;
                w4 = rmSyncRecursive sysroot w3;
                w5 = mkdirSync sysroot w4 in
            case fetchUrlDefault env (github env)
                   \<lparr>checksumSha256 = checksumSha256, assetName = expectedName, dest = sysroot\<rparr> w5 of
              (Inl error, w6) \<Rightarrow> (Inl error, w6)
            | (Inr _, w6) \<Rightarrow>
                (case expectedName of
                   None \<Rightarrow> (Inl (TypeError ''The data argument must be of type string''), w6)
                 | Some name \<Rightarrow> (Inr result, writeFileSync stamp name w6)))))"

text \<open>
  The download loop of \<^verbatim>\<open>getChromiumSysroot\<close>:
  \<^verbatim>\<open>for (let i = 0; i < 3 && !downloadSuccess; i++)\<close>. Each attempt empties the tarball,
  appends the chunks it receives, and ends with the \<^verbatim>\<open>end\<close> event of the response or with the
  \<^verbatim>\<open>error\<close> event of the request; an attempt on which neither event arrives is not modelled.
\<close>

function downloadLoop :: "env \<Rightarrow> string \<Rightarrow> string \<Rightarrow> nat \<Rightarrow> bool \<Rightarrow> world \<Rightarrow> bool \<times> world" where
  "downloadLoop env url tarball i downloadSuccess w =
     (if i < 3 \<and> \<not> downloadSuccess then
        (let w1 = writeFileSync tarball [] w;
             (chunks, err) = httpsGet env i url;
             w2 = fold (appendFileSync tarball) chunks (emit (HttpsGet url) w1) in
         case err of
           None \<Rightarrow> downloadLoop env url tarball (i + 1) True w2
         | Some message \<Rightarrow>
             downloadLoop env url tarball (i + 1) downloadSuccess
               (emit (ConsoleError (''Encountered an error during the download attempt: '' @ message)) w2))
      else (downloadSuccess, w))"
  by pat_completeness auto
termination
  by (relation "measure (\<lambda>(env, url, tarball, i, downloadSuccess, w). 3 - i)") auto

declare downloadLoop.simps [simp del]

text \<open>\<^verbatim>\<open>getChromiumSysroot\<close> (Variant B).\<close>

definition sysrootJSONUrl :: "string \<Rightarrow> string" where
  "sysrootJSONUrl electronVersion =
     ''https://raw.githubusercontent.com/electron/electron/v'' @ electronVersion @ ''/script/sysroots.json''"

definition chromiumUrl :: "sysrootDict \<Rightarrow> string" where
  "chromiumUrl sysrootDict = join ''/'' [URL_PREFIX, URL_PATH, Sha1Sum sysrootDict, Tarball sysrootDict]"

definition getChromiumSysroot :: "env \<Rightarrow> string \<Rightarrow> world \<Rightarrow> (error + string) \<times> world" where
  "getChromiumSysroot env arch w =
     (case getElectronVersion env w of
        (Inl e, w0) \<Rightarrow> (Inl e, w0)
      | (Inr (electronVersion, msBuildId), w0) \<Rightarrow>
          (let sysrootDictLocation = tmpdir env @ ''/sysroots.json'';
               curlArgs = [sysrootJSONUrl electronVersion, ''-o'', sysrootDictLocation];
               result = spawnCurl env curlArgs;
               w1 = emit (SpawnSync ''curl'' curlArgs) w0 in
           if status result \<noteq> Some 0 then
             (Inl (Error (''Cannot retrieve sysroots.json. Stderr:\<newline>'' @ stderr result)), w1)
           else
             (let w2 = emit (Require sysrootDictLocation) w1;
                  sysrootArch = (if arch = ''armhf'' then ''bullseye_arm'' else ''bullseye_'' @ arch) in
              case sysrootInfo env sysrootArch of
                None \<Rightarrow> (Inl (TypeError ''Cannot read properties of undefined''), w2)
              | Some sysrootDict \<Rightarrow>
                  (let tarballFilename = Tarball sysrootDict;
                       tarballSha = Sha1Sum sysrootDict;
                       sysroot = path_join [tmpdir env, SysrootDir sysrootDict];
                       url = chromiumUrl sysrootDict;
                       stamp = path_join [sysroot, ''.stamp''];
                       exists = (files w2 stamp \<noteq> None);
                       w3 = (if exists then emits [ExistsSync stamp, ReadFileSync stamp] w2
                             else emit (ExistsSync stamp) w2) in
                   if exists \<and> files w2 stamp = Some url then (Inr sysroot, w3)
                   else
                     (let w4 = emit (ConsoleLog (''Installing Debian '' @ arch @ '' root image: '' @ sysroot)) w3;
                          w5 = rmSyncRecursive sysroot w4;
                          w6 = mkdirSync sysroot w5;
                          tarball = path_join [sysroot, tarballFilename];
                          w7 = emit (ConsoleLog (''Downloading '' @ url)) w6;
                          (downloadSuccess, w8) = downloadLoop env url tarball 0 False w7 in
                      if \<not> downloadSuccess then
                        (Inl (Error (''Failed to download '' @ url)), rmSync tarball w8)
                      else
                        (case getSha env tarball w8 of
                           (Inl e, w9) \<Rightarrow> (Inl e, w9)
                         | (Inr sha, w9) \<Rightarrow>
                             if sha \<noteq> tarballSha then
                               (Inl (Error (''Tarball sha1sum is wrong. Expected '' @ tarballSha @ '', actual '' @ sha)), w9)
                             else
                               (let tarArgs = [''xf'', tarball, ''-C'', sysroot];
                                    proc = spawnTar env tarArgs;
                                    w10 = emit (SpawnSync ''tar'' tarArgs) w9 in
                                if truthyStatus (status proc) then
                                  (Inl (Error (''Tarball extraction failed with code '' @
                                          statusString (status proc))), w10)
                                else
                                  (Inr sysroot, writeFileSync stamp url (rmSync tarball w10)))))))))"

section \<open>dependencies-generator: the Dependency Reconciler\<close>

definition FAIL_BUILD_FOR_NEW_DEPENDENCIES :: bool where
  "FAIL_BUILD_FOR_NEW_DEPENDENCIES = True"

definition bundledDeps :: "string list" where
  "bundledDeps = [''libEGL.so'', ''libGLESv2.so'', ''libvulkan.so.1'', ''libvk_swiftshader.so'', ''libffmpeg.so'']"

text \<open>\<^verbatim>\<open>mergePackageDeps\<close>: the two nested loops over the per-file sets, adding to \<^verbatim>\<open>requires\<close>.\<close>

definition addDependency :: "string \<Rightarrow> string list \<Rightarrow> string list" where
  "addDependency dep requires =
     (let trimmedDependency = trim dep in
      if trimmedDependency \<noteq> [] \<and> \<not> startsWith trimmedDependency ''#''
      then set_add trimmedDependency requires else requires)"

definition mergePackageDeps :: "string list list \<Rightarrow> string list" where
  "mergePackageDeps inputDeps = fold (\<lambda>depSet requires. fold addDependency depSet requires) inputDeps []"

text \<open>
  The filter of \<^verbatim>\<open>getDependencies\<close>,
  \<^verbatim>\<open>dependency => !bundledDeps.some(bundledDep => dependency.startsWith(bundledDep))\<close>,
  with the list it closes over as a parameter.
\<close>

definition notBundled :: "string list \<Rightarrow> string \<Rightarrow> bool" where
  "notBundled bundled dependency = (\<not> list_ex (\<lambda>bundledDep. startsWith dependency bundledDep) bundled)"

definition sortDependencies :: "string list \<Rightarrow> string list" where
  "sortDependencies mergedDependencies = sort (filter (notBundled bundledDeps) mergedDependencies)"

text \<open>The files to scan: what \<^verbatim>\<open>find\<close> printed plus the tunnel binary, and the runtime files.\<close>

definition nativeModulesPath :: "string \<Rightarrow> string" where
  "nativeModulesPath buildDir =
     path_join [buildDir, ''resources'', ''app'', ''node_modules.asar.unpacked'']"

definition findArgs :: "string \<Rightarrow> string list" where
  "findArgs buildDir = [nativeModulesPath buildDir, ''-name'', ''*.node'']"

definition vscodeFilesOf :: "env \<Rightarrow> string \<Rightarrow> string \<Rightarrow> string list" where
  "vscodeFilesOf env buildDir out =
     split (CHR 0x0A) (trimEnd out) @ [path_join [buildDir, ''bin'', tunnelApplicationName env]]"

definition runtimeFilesOf :: "string \<Rightarrow> string \<Rightarrow> string list" where
  "runtimeFilesOf buildDir applicationName =
     [path_join [buildDir, applicationName], path_join [buildDir, ''chrome-sandbox''],
      path_join [buildDir, ''chrome_crashpad_handler'']]"

text \<open>Lines 64 to 75 of \<^verbatim>\<open>getDependencies\<close>: the sysroots and the extractor, to \<^verbatim>\<open>mergedDependencies\<close>.\<close>

definition generateDependencies ::
  "env \<Rightarrow> string \<Rightarrow> string \<Rightarrow> string list \<Rightarrow> string list \<Rightarrow> world \<Rightarrow> (error + string list) \<times> world" where
  "generateDependencies env packageType arch vscodeFiles runtimeFiles w =
     (if packageType = ''deb'' then
        (case getChromiumSysroot env arch w of
           (Inl e, w1) \<Rightarrow> (Inl e, w1)
         | (Inr chromiumSysroot, w1) \<Rightarrow>
             (case getVSCodeSysroot env arch w1 of
                (Inl e, w2) \<Rightarrow> (Inl e, w2)
              | (Inr vscodeSysroot, w2) \<Rightarrow>
                  (let w3 = emit (DebGeneratePackageDeps vscodeFiles arch vscodeSysroot) w2 in
                   case debGeneratePackageDeps env vscodeFiles arch vscodeSysroot of
                     Inl e \<Rightarrow> (Inl e, w3)
                   | Inr deps1 \<Rightarrow>
                       (let vscodeDependencies = mergePackageDeps deps1;
                            w4 = emit (DebGeneratePackageDeps runtimeFiles arch chromiumSysroot) w3 in
                        case debGeneratePackageDeps env runtimeFiles arch chromiumSysroot of
                          Inl e \<Rightarrow> (Inl e, w4)
                        | Inr deps2 \<Rightarrow>
                            (let runtimeDependencies = mergePackageDeps deps2 in
                             (Inr (new_Set (vscodeDependencies @ runtimeDependencies)), w4))))))
      else
        (let w1 = emit (RpmGeneratePackageDeps (vscodeFiles @ runtimeFiles)) w in
         case rpmGeneratePackageDeps env (vscodeFiles @ runtimeFiles) of
           Inl e \<Rightarrow> (Inl e, w1)
         | Inr dependencies \<Rightarrow> (Inr (mergePackageDeps dependencies), w1)))"

text \<open>
  Lines 80 to 94: the comparison with the reference list. \<^verbatim>\<open>JSON.stringify(undefined)\<close> is
  \<^verbatim>\<open>undefined\<close>, and \<^verbatim>\<open>undefined.join\<close> throws.
\<close>

definition failMessageOf :: "string list \<Rightarrow> string list \<Rightarrow> string" where
  "failMessageOf referenceGeneratedDeps sortedDependencies =
     ''The dependencies list has changed.''
       @ ''\<newline>Old:\<newline>'' @ join ''\<newline>'' referenceGeneratedDeps
       @ ''\<newline>New:\<newline>'' @ join ''\<newline>'' sortedDependencies"

definition checkReference ::
  "bool \<Rightarrow> string list \<Rightarrow> string list option \<Rightarrow> world \<Rightarrow> (error + string list) \<times> world" where
  "checkReference failBuild sortedDependencies referenceGeneratedDeps w =
     (if Some (JSON_stringify sortedDependencies) \<noteq> map_option JSON_stringify referenceGeneratedDeps then
        (case referenceGeneratedDeps of
           None \<Rightarrow> (Inl (TypeError ''Cannot read properties of undefined''), w)
         | Some reference \<Rightarrow>
             (let failMessage = failMessageOf reference sortedDependencies in
              if failBuild then (Inl (Error failMessage), w)
              else (Inr sortedDependencies, emit (ConsoleWarn failMessage) w)))
      else (Inr sortedDependencies, w))"

definition referenceFor :: "env \<Rightarrow> string \<Rightarrow> string \<Rightarrow> string list option" where
  "referenceFor env packageType arch =
     (if packageType = ''deb'' then debReferenceGeneratedDepsByArch env arch
      else rpmReferenceGeneratedDepsByArch env arch)"

text \<open>
  \<^verbatim>\<open>getDependencies\<close>, with the constant \<^verbatim>\<open>FAIL_BUILD_FOR_NEW_DEPENDENCIES\<close> as the parameter
  \<open>failBuild\<close>.
\<close>

definition getDependenciesWith ::
  "bool \<Rightarrow> env \<Rightarrow> string \<Rightarrow> string \<Rightarrow> string \<Rightarrow> string \<Rightarrow> world \<Rightarrow> (error + string list) \<times> world" where
  "getDependenciesWith failBuild env packageType buildDir applicationName arch w =
     (if packageType = ''deb'' \<and> \<not> isDebianArchString env arch then
        (Inl (Error (''Invalid Debian arch string '' @ arch)), w)
      else if packageType = ''rpm'' \<and> \<not> isRpmArchString env arch then
        (Inl (Error (''Invalid RPM arch string '' @ arch)), w)
      else
        (let findResult = spawnFind env (findArgs buildDir);
             w1 = emit (SpawnSync ''find'' (findArgs buildDir)) w in
         if truthyStatus (status findResult) then
           (Inr [], emits [ConsoleError ''Error finding files:'', ConsoleError (stderr findResult)] w1)
         else
           (let vscodeFiles = vscodeFilesOf env buildDir (stdout findResult);
                runtimeFiles = runtimeFilesOf buildDir applicationName in
            case generateDependencies env packageType arch vscodeFiles runtimeFiles w1 of
              (Inl e, w2) \<Rightarrow> (Inl e, w2)
            | (Inr mergedDependencies, w2) \<Rightarrow>
                checkReference failBuild (sortDependencies mergedDependencies)
                  (referenceFor env packageType arch) w2)))"

definition getDependencies ::
  "env \<Rightarrow> string \<Rightarrow> string \<Rightarrow> string \<Rightarrow> string \<Rightarrow> world \<Rightarrow> (error + string list) \<times> world" where
  "getDependencies = getDependenciesWith FAIL_BUILD_FOR_NEW_DEPENDENCIES"

section \<open>Auxiliary definitions for the proofs, and a concrete environment\<close>

text \<open>The three shapes of an escaped character, and the character a two-character escape stands for.\<close>

datatype escape_shape = Plain | Short char | Unicode

definition shape :: "char \<Rightarrow> escape_shape" where
  "shape c =
     (if c = CHR 0x22 \<or> c = CHR 0x5C then Short c
      else if c = CHR 0x08 then Short (CHR ''b'')
      else if c = CHR 0x0C then Short (CHR ''f'')
      else if c = CHR 0x0A then Short (CHR ''n'')
      else if c = CHR 0x0D then Short (CHR ''r'')
      else if c = CHR 0x09 then Short (CHR ''t'')
      else if (of_char c :: nat) < 32 then Unicode else Plain)"

definition json_unescape2 :: "char \<Rightarrow> char" where
  "json_unescape2 t =
     (if t = CHR ''b'' then CHR 0x08 else if t = CHR ''f'' then CHR 0x0C
      else if t = CHR ''n'' then CHR 0x0A else if t = CHR ''r'' then CHR 0x0D
      else if t = CHR ''t'' then CHR 0x09 else t)"


text \<open>A concrete environment, in which every collaborator succeeds, and an empty world.\<close>

definition okResponse :: "string \<Rightarrow> response" where
  "okResponse body = \<lparr>resp_ok = True, resp_status = 200, resp_arrayBuffer = Inr body\<rparr>"

definition okAttempt :: attempt_io where
  "okAttempt = \<lparr>releaseFetch = Inr (okResponse ''release''),
                 assetFetch = (\<lambda>url. Inr (okResponse ''archive'')),
                 execTar = (\<lambda>command input. None)\<rparr>"


definition exitStatus :: "nat option \<Rightarrow> spawn_result" where
  "exitStatus s = \<lparr>status = s, stdout = [], stderr = []\<rparr>"

definition exampleEnv :: env where
  "exampleEnv =
     \<lparr>isDebianArchString = (\<lambda>a. a = ''amd64'' \<or> a = ''armhf'' \<or> a = ''arm64''),
      isRpmArchString = (\<lambda>a. a = ''x86_64'' \<or> a = ''armv7hl'' \<or> a = ''aarch64''),
      debReferenceGeneratedDepsByArch = [''amd64'' \<mapsto> [''libc.so.6'', ''libpthread.so.0'']],
      rpmReferenceGeneratedDepsByArch = [''x86_64'' \<mapsto> [''libc.so.6'', ''libpthread.so.0'']],
      debGeneratePackageDeps = (\<lambda>files arch sysroot. Inr [[''libpthread.so.0''], [''libc.so.6'', ''libEGL.so.1'']]),
      rpmGeneratePackageDeps = (\<lambda>files. Inr [[''libpthread.so.0'', '' libc.so.6 ''], [''libc.so.6'', ''# comment'', []]]),
      tunnelApplicationName = ''code-tunnel'',
      spawnFind = (\<lambda>args. \<lparr>status = Some 0, stdout = ''/build/a.node\<newline>'', stderr = []\<rparr>),
      REPO_ROOT = ''/repo'',
      tmpdir = ''/tmp'',
      VSCODE_SYSROOT_DIR = None,
      checksumLines = [(''abc'', Some ''x86_64-linux-gnu.tar.gz'')],
      github = (\<lambda>k. okAttempt),
      parseAssets = (\<lambda>contents. Inr [(''x86_64-linux-gnu.tar.gz'', ''https://example.org/asset'')]),
      sha256 = (\<lambda>contents. ''abc''),
      sha1 = (\<lambda>contents. ''def''),
      magenta = (\<lambda>s. s),
      cyan = (\<lambda>s. s),
      yarnrc = (Some ''27.1.3'', Some ''1''),
      spawnCurl = (\<lambda>args. exitStatus (Some 0)),
      sysrootInfo = [''bullseye_amd64'' \<mapsto>
                       \<lparr>Tarball = ''sysroot.tar.xz'', Sha1Sum = ''def'', SysrootDir = ''debian-sysroot''\<rparr>],
      httpsGet = (\<lambda>i url. ([''data''], None)),
      spawnTar = (\<lambda>args. exitStatus (Some 0))\<rparr>"


definition emptyWorld :: world where
  "emptyWorld = \<lparr>files = Map.empty, trace = []\<rparr>"

text \<open>
  The entries that claim C7 says the final list is made of, in the claim's words: the trimmed
  entries of all per-file dependency sets that are non-empty and do not start with \<open>#\<close>.
\<close>

definition specEntries :: "string list list \<Rightarrow> string set" where
  "specEntries outs =
     {t. (\<exists>depSet \<in> set outs. \<exists>dep \<in> set depSet. t = trim dep) \<and> t \<noteq> [] \<and> \<not> startsWith t ''#''}"

text \<open>
  A normalised list of segments: leading \<^verbatim>\<open>..\<close> segments, only where they are allowed, then
  segments that are neither empty nor \<^verbatim>\<open>.\<close> nor \<^verbatim>\<open>..\<close> and hold no separator.
\<close>

definition regular :: "string \<Rightarrow> bool" where
  "regular s = (s \<noteq> [] \<and> s \<noteq> ''.'' \<and> s \<noteq> ''..'' \<and> CHR ''/'' \<notin> set s)"

definition normalForm :: "bool \<Rightarrow> string list \<Rightarrow> bool" where
  "normalForm allow st =
     (\<exists>k rest. st = replicate k ''..'' @ rest \<and> (k > 0 \<longrightarrow> allow) \<and> (\<forall>s \<in> set rest. regular s))"


definition vscodeStamp :: "env \<Rightarrow> string \<Rightarrow> string" where
  "vscodeStamp env arch = path_join [vscodeSysrootDir env arch, ''.stamp'']"

definition sysrootArchOf :: "string \<Rightarrow> string" where
  "sysrootArchOf arch = (if arch = ''armhf'' then ''bullseye_arm'' else ''bullseye_'' @ arch)"


definition chromiumStamp :: "env \<Rightarrow> sysrootDict \<Rightarrow> string" where
  "chromiumStamp env d = path_join [path_join [tmpdir env, SysrootDir d], ''.stamp'']"



section \<open>\<^verbatim>\<open>JSON.stringify\<close> is injective on arrays of strings\<close>

lemma hexDigit_code:
  "a < 16 \<Longrightarrow> (of_char (hexDigit a) :: nat) = (if a < 10 then 48 + a else 87 + a)"
  by (simp add: hexDigit_def take_bit_nat_eq_self)

lemma hexDigit_inj: "a < 16 \<Longrightarrow> b < 16 \<Longrightarrow> hexDigit a = hexDigit b \<Longrightarrow> a = b"
proof -
  assume a: "a < 16" and b: "b < 16" and e: "hexDigit a = hexDigit b"
  from e have "(of_char (hexDigit a) :: nat) = of_char (hexDigit b)" by simp
  with a b show "a = b" by (simp add: hexDigit_code split: if_splits)
qed

lemma of_char_div_mod_inj:
  fixes c d :: char
  assumes "(of_char c :: nat) div 16 = of_char d div 16"
    and "(of_char c :: nat) mod 16 = of_char d mod 16"
  shows "c = d"
proof -
  have "(of_char c :: nat) = of_char d"
    using assms by (metis div_mult_mod_eq)
  then show ?thesis by simp
qed

lemma json_escape_Plain:
  "shape c = Plain \<Longrightarrow> json_escape c = [c] \<and> c \<noteq> CHR 0x22 \<and> c \<noteq> CHR 0x5C"
  unfolding json_escape_def shape_def by (simp split: if_splits)

lemma json_escape_Short:
  "shape c = Short t \<Longrightarrow> json_escape c = [CHR 0x5C, t] \<and> t \<noteq> CHR ''u''"
  unfolding json_escape_def shape_def by (auto split: if_splits)

lemma shape_Short_unescape: "shape c = Short t \<Longrightarrow> c = json_unescape2 t"
  unfolding shape_def json_unescape2_def by (auto split: if_splits)

lemma json_escape_Unicode:
  "shape c = Unicode \<Longrightarrow>
     json_escape c = [CHR 0x5C, CHR ''u'', CHR ''0'', CHR ''0'',
       hexDigit ((of_char c :: nat) div 16), hexDigit ((of_char c :: nat) mod 16)]
     \<and> (of_char c :: nat) < 32"
  unfolding json_escape_def shape_def by (simp split: if_splits)

text \<open>No escape is a prefix of another one: the escapes form a prefix code.\<close>

lemma json_escape_prefix_free:
  assumes "json_escape c @ r = json_escape d @ s"
  shows "c = d \<and> r = s"
proof (cases "shape c")
  case Plain
  note c = json_escape_Plain[OF this]
  show ?thesis
  proof (cases "shape d")
    case Plain
    with c assms json_escape_Plain[OF this] show ?thesis by simp
  next
    case (Short t)
    with c assms json_escape_Short[OF this] show ?thesis by simp
  next
    case Unicode
    with c assms json_escape_Unicode[OF this] show ?thesis by simp
  qed
next
  case (Short t)
  note sc = this
  note c = json_escape_Short[OF this]
  show ?thesis
  proof (cases "shape d")
    case Plain
    with c assms json_escape_Plain[OF this] show ?thesis by simp
  next
    case (Short t')
    note d = json_escape_Short[OF this]
    from c d assms have "t = t'" and rs: "r = s" by simp_all
    with sc Short have "c = d"
      using shape_Short_unescape[of c t] shape_Short_unescape[of d t'] by simp
    with rs show ?thesis by simp
  next
    case Unicode
    with c assms json_escape_Unicode[OF this] show ?thesis by simp
  qed
next
  case Unicode
  note c = json_escape_Unicode[OF this]
  show ?thesis
  proof (cases "shape d")
    case Plain
    with c assms json_escape_Plain[OF this] show ?thesis by simp
  next
    case (Short t')
    with c assms json_escape_Short[OF this] show ?thesis by simp
  next
    case Unicode
    note d = json_escape_Unicode[OF this]
    have lt: "(of_char c :: nat) div 16 < 16" "(of_char c :: nat) mod 16 < 16"
      "(of_char d :: nat) div 16 < 16" "(of_char d :: nat) mod 16 < 16"
      using c d by auto
    from c d assms
    have "hexDigit ((of_char c :: nat) div 16) = hexDigit ((of_char d :: nat) div 16)"
      and "hexDigit ((of_char c :: nat) mod 16) = hexDigit ((of_char d :: nat) mod 16)"
      and rs: "r = s"
      by simp_all
    with lt have "(of_char c :: nat) div 16 = of_char d div 16"
      and "(of_char c :: nat) mod 16 = of_char d mod 16"
      by (simp_all add: hexDigit_inj)
    then have "c = d" by (rule of_char_div_mod_inj)
    with rs show ?thesis by simp
  qed
qed

lemma json_escape_not_quote: "json_escape c @ r \<noteq> CHR 0x22 # s"
  by (cases "shape c") (auto dest: json_escape_Plain json_escape_Short json_escape_Unicode)

lemma json_body_inj:
  "concat (map json_escape s) @ CHR 0x22 # r = concat (map json_escape t) @ CHR 0x22 # r'
     \<Longrightarrow> s = t \<and> r = r'"
proof (induction s arbitrary: t)
  case Nil
  show ?case
  proof (cases t)
    case Nil
    with Nil.prems show ?thesis by simp
  next
    case (Cons b t')
    with Nil.prems
    have "json_escape b @ (concat (map json_escape t') @ CHR 0x22 # r') = CHR 0x22 # r"
      by simp
    with json_escape_not_quote show ?thesis by blast
  qed
next
  case (Cons a s)
  show ?case
  proof (cases t)
    case Nil
    with Cons.prems
    have "json_escape a @ (concat (map json_escape s) @ CHR 0x22 # r) = CHR 0x22 # r'"
      by simp
    with json_escape_not_quote show ?thesis by blast
  next
    case (Cons b t')
    with Cons.prems
    have "json_escape a @ (concat (map json_escape s) @ CHR 0x22 # r)
            = json_escape b @ (concat (map json_escape t') @ CHR 0x22 # r')"
      by simp
    from json_escape_prefix_free[OF this] Cons.IH[of t'] Cons show ?thesis by simp
  qed
qed

lemma json_quote_inj: "json_quote s @ r = json_quote t @ r' \<Longrightarrow> s = t \<and> r = r'"
  unfolding json_quote_def using json_body_inj[of s r t r'] by simp

lemma join_Cons: "join sep (x # xs) = x @ (if xs = [] then [] else sep @ join sep xs)"
  by (cases xs) simp_all

lemma join_quote_inj:
  "join '','' (map json_quote xs) @ CHR '']'' # r = join '','' (map json_quote ys) @ CHR '']'' # r'
     \<Longrightarrow> xs = ys"
proof (induction xs arbitrary: ys)
  case Nil
  then show ?case by (cases ys) (simp_all add: join_Cons json_quote_def)
next
  case (Cons x xs)
  show ?case
  proof (cases ys)
    case Nil
    with Cons.prems show ?thesis by (simp add: join_Cons json_quote_def)
  next
    case (Cons y ys')
    let ?tl = "\<lambda>zs q. (if zs = [] then [] else '','' @ join '','' (map json_quote zs)) @ CHR '']'' # q"
    from Cons.prems Cons have "json_quote x @ ?tl xs r = json_quote y @ ?tl ys' r'"
      by (simp add: join_Cons)
    from json_quote_inj[OF this] have xy: "x = y" and tl: "?tl xs r = ?tl ys' r'" by simp_all
    have "xs = ys'"
    proof (cases "xs = []")
      case True
      with tl show ?thesis by (cases "ys' = []") simp_all
    next
      case False
      with tl have ne: "ys' \<noteq> []" by (cases "ys' = []") simp_all
      with False tl
      have "join '','' (map json_quote xs) @ CHR '']'' # r
              = join '','' (map json_quote ys') @ CHR '']'' # r'"
        by simp
      then show ?thesis by (rule Cons.IH)
    qed
    with xy Cons show ?thesis by simp
  qed
qed

lemma JSON_stringify_inj: "JSON_stringify xs = JSON_stringify ys \<longleftrightarrow> xs = ys"
proof
  assume "JSON_stringify xs = JSON_stringify ys"
  then have "join '','' (map json_quote xs) @ CHR '']'' # []
               = join '','' (map json_quote ys) @ CHR '']'' # []"
    by (simp add: JSON_stringify_def)
  then show "xs = ys" by (rule join_quote_inj)
qed simp

section \<open>\<^verbatim>\<open>path.join\<close>: the marker path lies inside the sysroot directory\<close>

lemma split_not_Nil: "split c p \<noteq> []"
  by (induction p) (auto split: list.splits)

lemma split_append: "split c (a @ c # b) = split c a @ split c b"
proof (induction a)
  case Nil
  show ?case by simp
next
  case (Cons x a)
  show ?case
  proof (cases "x = c")
    case True
    with Cons show ?thesis by simp
  next
    case False
    obtain y ys where s: "split c a = y # ys"
      using split_not_Nil[of c a] by (cases "split c a") auto
    with False Cons show ?thesis by simp
  qed
qed

lemma split_no_separator: "s \<in> set (split c p) \<Longrightarrow> c \<notin> set s"
proof (induction p arbitrary: s)
  case Nil
  then show ?case by simp
next
  case (Cons x p)
  show ?case
  proof (cases "x = c")
    case True
    with Cons show ?thesis by auto
  next
    case False
    obtain y ys where s: "split c p = y # ys"
      using split_not_Nil[of c p] by (cases "split c p") auto
    with False Cons.prems have "s = x # y \<or> s \<in> set ys" by simp
    with s Cons.IH[of y] Cons.IH[of s] False show ?thesis by auto
  qed
qed

lemma split_single: "c \<notin> set s \<Longrightarrow> split c s = [s]"
  by (induction s) auto

lemma split_join:
  "st \<noteq> [] \<Longrightarrow> \<forall>s \<in> set st. c \<notin> set s \<Longrightarrow> split c (join [c] st) = st"
proof (induction st)
  case Nil
  then show ?case by simp
next
  case (Cons x xs)
  show ?case
  proof (cases "xs = []")
    case True
    with Cons.prems show ?thesis by (simp add: split_single)
  next
    case False
    with Cons have "split c (join [c] xs) = xs" by simp
    with False Cons.prems show ?thesis
      using split_append[of c x "join [c] xs"] by (simp add: join_Cons split_single)
  qed
qed

lemma normalForm_step:
  assumes "normalForm allow res" and "CHR ''/'' \<notin> set seg"
  shows "normalForm allow (normalizeStep allow res seg)"
proof -
  from assms(1) obtain k rest where
    r: "res = replicate k ''..'' @ rest" and a: "k > 0 \<longrightarrow> allow" and g: "\<forall>s \<in> set rest. regular s"
    unfolding normalForm_def by blast
  show ?thesis
  proof (cases "seg = [] \<or> seg = ''.''")
    case True
    with assms(1) show ?thesis by (auto simp: normalizeStep_def)
  next
    case False
    note ne = this
    show ?thesis
    proof (cases "seg = ''..''")
      case False
      with ne assms(2) have "regular seg" by (simp add: regular_def)
      with r a g have "normalizeStep allow res seg = replicate k ''..'' @ (rest @ [seg])
          \<and> (\<forall>s \<in> set (rest @ [seg]). regular s)"
        using ne False by (auto simp: normalizeStep_def)
      with a show ?thesis unfolding normalForm_def by blast
    next
      case True
      show ?thesis
      proof (cases "rest = []")
        case False
        then have l: "last res = last rest" "res \<noteq> []" using r by simp_all
        from False g have "regular (last rest)" by simp
        then have "last rest \<noteq> ''..''" by (auto simp: regular_def)
        with l True have "normalizeStep allow res seg = butlast res" by (simp add: normalizeStep_def)
        also have "\<dots> = replicate k ''..'' @ butlast rest" using r False by (simp add: butlast_append)
        finally show ?thesis using a g unfolding normalForm_def
          by (metis in_set_butlastD)
      next
        case rn: True
        show ?thesis
        proof (cases allow)
          case True
          have "res = [] \<or> last res = ''..''" using r rn by (cases k) auto
          with \<open>seg = ''..''\<close> True have "normalizeStep allow res seg = res @ [''..'']"
            by (auto simp: normalizeStep_def)
          also have "\<dots> = replicate (Suc k) ''..'' @ []"
            using r rn by (simp add: replicate_append_same)
          finally show ?thesis using True unfolding normalForm_def by (metis empty_iff list.set(1))
        next
          case False
          with a have "k = 0" by auto
          with r rn have "res = []" by simp
          with False \<open>seg = ''..''\<close> have "normalizeStep allow res seg = []" by (simp add: normalizeStep_def)
          then show ?thesis unfolding normalForm_def by auto
        qed
      qed
    qed
  qed
qed

lemma normalForm_foldl:
  "normalForm allow res \<Longrightarrow> \<forall>s \<in> set segs. CHR ''/'' \<notin> set s \<Longrightarrow>
     normalForm allow (foldl (normalizeStep allow) res segs)"
  by (induction segs arbitrary: res) (simp_all add: normalForm_step)

lemma normalForm_normalizeString: "normalForm allow (normalizeString p allow)"
  unfolding normalizeString_def
  by (rule normalForm_foldl) (auto simp: normalForm_def dest: split_no_separator)

lemma foldl_regular:
  "\<forall>s \<in> set rest. regular s \<Longrightarrow> foldl (normalizeStep allow) acc rest = acc @ rest"
  by (induction rest arbitrary: acc) (auto simp: normalizeStep_def regular_def)

lemma foldl_dotdots:
  "allow \<Longrightarrow> foldl (normalizeStep allow) (replicate j ''..'') (replicate k ''..'') = replicate (j + k) ''..''"
proof (induction k arbitrary: j)
  case 0
  show ?case by simp
next
  case (Suc k)
  have "normalizeStep allow (replicate j ''..'') ''..'' = replicate (Suc j) ''..''"
    using Suc.prems by (cases j) (auto simp: normalizeStep_def replicate_append_same)
  with Suc.IH[OF Suc.prems, of "Suc j"] show ?case by simp
qed

lemma normalForm_refold:
  assumes "normalForm allow st"
  shows "foldl (normalizeStep allow) [] st = st"
proof -
  from assms obtain k rest where
    r: "st = replicate k ''..'' @ rest" and a: "k > 0 \<longrightarrow> allow" and g: "\<forall>s \<in> set rest. regular s"
    unfolding normalForm_def by blast
  have "foldl (normalizeStep allow) [] (replicate k ''..'') = replicate k ''..''"
  proof (cases "k = 0")
    case True
    then show ?thesis by simp
  next
    case False
    with a have allow by simp
    from foldl_dotdots[OF this, of 0 k] show ?thesis by simp
  qed
  with r g show ?thesis by (simp add: foldl_regular)
qed

lemma normalForm_cases:
  assumes "normalForm allow st" and "s \<in> set st"
  shows "s = ''..'' \<or> regular s"
proof -
  from assms(1) obtain k rest where
    r: "st = replicate k ''..'' @ rest" and g: "\<forall>s \<in> set rest. regular s"
    unfolding normalForm_def by blast
  from assms(2) r have "s \<in> set (replicate k ''..'') \<or> s \<in> set rest" by simp
  then show ?thesis
  proof
    assume "s \<in> set (replicate k ''..'')"
    then have "s = ''..''" by (simp only: in_set_replicate)
    then show ?thesis ..
  next
    assume "s \<in> set rest"
    with g show ?thesis by blast
  qed
qed

lemma normalForm_no_separator: "normalForm allow st \<Longrightarrow> s \<in> set st \<Longrightarrow> CHR ''/'' \<notin> set s"
  by (drule (1) normalForm_cases, erule disjE) (simp_all add: regular_def)

lemma normalForm_nonempty: "normalForm allow st \<Longrightarrow> s \<in> set st \<Longrightarrow> s \<noteq> []"
  by (drule (1) normalForm_cases, erule disjE) (simp_all add: regular_def)

lemma join_eq_Nil: "\<forall>s \<in> set st. s \<noteq> [] \<Longrightarrow> join sep st = [] \<longleftrightarrow> st = []"
  by (induction sep st rule: join.induct) auto

lemma hd_join: "st \<noteq> [] \<Longrightarrow> hd st \<noteq> [] \<Longrightarrow> hd (join sep st) = hd (hd st)"
  by (induction sep st rule: join.induct) auto

text \<open>A segment appended to a path is appended to its normalised segments.\<close>

lemma normalizeString_append_segment:
  assumes "regular s"
  shows "normalizeString (d @ CHR ''/'' # s) allow = normalizeString d allow @ [s]"
proof -
  from assms have "split (CHR ''/'') s = [s]" by (simp add: split_single regular_def)
  then show ?thesis
    using assms by (simp add: normalizeString_def split_append normalizeStep_def regular_def)
qed

lemma normalizeString_single:
  assumes "regular s"
  shows "normalizeString s allow = [s]"
  using assms by (simp add: normalizeString_def split_single normalizeStep_def regular_def)

text \<open>The segments of a rendered path are the segments it was rendered from.\<close>

lemma normalizeString_render:
  assumes "normalForm allow st" and "st \<noteq> []"
  shows "normalizeString (join ''/'' st) allow = st"
    and "normalizeString (CHR ''/'' # join ''/'' st) allow = st"
proof -
  from assms have sp: "split (CHR ''/'') (join ''/'' st) = st"
    by (intro split_join) (auto dest: normalForm_no_separator)
  with assms show "normalizeString (join ''/'' st) allow = st"
    by (simp add: normalizeString_def normalForm_refold)
  from sp assms show "normalizeString (CHR ''/'' # join ''/'' st) allow = st"
    by (simp add: normalizeString_def normalForm_refold normalizeStep_def)
qed

lemma regular_stamp: "regular ''.stamp''"
  by (simp add: regular_def)

lemma inside_stamp: "inside (path_join [d, ''.stamp'']) d"
proof -
  let ?allow = "\<not> isAbsolute d"
  let ?st = "normalizeString d ?allow @ [''.stamp'']"
  have nf: "normalForm ?allow ?st"
  proof (cases "d = []")
    case True
    then show ?thesis
      by (simp add: normalizeString_def normalizeStep_def normalForm_def regular_def)
         (rule exI[of _ 0], simp)
  next
    case False
    have "?st = normalizeString (d @ CHR ''/'' # ''.stamp'') ?allow"
      by (simp add: normalizeString_append_segment regular_stamp)
    then show ?thesis by (simp only: normalForm_normalizeString)
  qed
  have "\<forall>s \<in> set ?st. s \<noteq> []"
    using nf normalForm_nonempty by blast
  then have "join ''/'' ?st = [] \<longleftrightarrow> ?st = []" by (rule join_eq_Nil)
  then have ne: "join ''/'' ?st \<noteq> []" by simp
  have r: "path_join [d, ''.stamp''] = (if isAbsolute d then ''/'' else []) @ join ''/'' ?st"
  proof (cases "d = []")
    case True
    then show ?thesis
      by (simp add: path_join_def normalize_def isAbsolute_def normalizeString_def normalizeStep_def)
  next
    case False
    then have abs: "isAbsolute (d @ CHR ''/'' # ''.stamp'') = isAbsolute d"
      by (simp add: isAbsolute_def)
    have "path_join [d, ''.stamp''] = normalize (d @ CHR ''/'' # ''.stamp'')"
      using False by (simp add: path_join_def)
    also have "\<dots> = (if isAbsolute d then ''/'' else []) @ join ''/'' ?st"
      using ne abs by (simp add: normalize_def normalizeString_append_segment regular_stamp Let_def)
    finally show ?thesis .
  qed
  have stne: "?st \<noteq> []" by simp
  have hdne: "hd (join ''/'' ?st) \<noteq> CHR ''/''"
  proof -
    from stne have m: "hd ?st \<in> set ?st" by (rule hd_in_set)
    from nf m have h1: "hd ?st \<noteq> []" by (rule normalForm_nonempty)
    from nf m have h2: "CHR ''/'' \<notin> set (hd ?st)" by (rule normalForm_no_separator)
    from h1 have "hd (hd ?st) \<in> set (hd ?st)" by (rule hd_in_set)
    with h2 have "hd (hd ?st) \<noteq> CHR ''/''" by metis
    moreover have "hd (join ''/'' ?st) = hd (hd ?st)" using stne h1 by (rule hd_join)
    ultimately show ?thesis by simp
  qed
  have a: "isAbsolute (path_join [d, ''.stamp'']) = isAbsolute d"
    using r ne hdne by (auto simp: isAbsolute_def)
  have s: "normalizeString (path_join [d, ''.stamp'']) ?allow = ?st"
  proof (cases "isAbsolute d")
    case True
    with r have "path_join [d, ''.stamp''] = CHR ''/'' # join ''/'' ?st" by simp
    then show ?thesis by (simp only: normalizeString_render(2)[OF nf stne])
  next
    case False
    with r have "path_join [d, ''.stamp''] = join ''/'' ?st" by simp
    then show ?thesis by (simp only: normalizeString_render(1)[OF nf stne])
  qed
  show ?thesis
    unfolding inside_def a s by (simp add: Let_def)
qed

section \<open>The retry loop of \<^verbatim>\<open>fetchUrl\<close>\<close>







lemma fetchAttempt_asset_status:
  "releaseFetch a = Inr resp \<Longrightarrow> okStatus resp \<Longrightarrow> resp_arrayBuffer resp = Inr contents \<Longrightarrow>
   parseAssets env contents = Inr assets \<Longrightarrow>
   find (\<lambda>x. Some (fst x) = assetName opts) assets = Some asset \<Longrightarrow>
   assetFetch a (snd asset) = Inr assetResp \<Longrightarrow> \<not> okStatus assetResp \<Longrightarrow>
     fst (fetchAttempt env a opts) =
       Inl (Error (''Request '' @ magenta env (snd asset) @ '' failed with status code: '' @
              string_of_nat (resp_status assetResp)))"
  by (simp add: fetchAttempt_def Let_def)


section \<open>The comparison with the reference list\<close>

lemma checkReference_Some:
  "checkReference failBuild s (Some r) w =
     (if s \<noteq> r then
        (if failBuild then (Inl (Error (failMessageOf r s)), w)
         else (Inr s, emit (ConsoleWarn (failMessageOf r s)) w))
      else (Inr s, w))"
  by (simp add: checkReference_def JSON_stringify_inj)

text \<open>
  \<^verbatim>\<open>getDependencies\<close> once the architecture is valid and \<^verbatim>\<open>find\<close> did not report a failure: the
  sysroots and the extractor, then the comparison.
\<close>

lemma getDependenciesWith_reached:
  assumes "packageType = ''deb'' \<longrightarrow> isDebianArchString env arch"
    and "packageType = ''rpm'' \<longrightarrow> isRpmArchString env arch"
    and "\<not> truthyStatus (status (spawnFind env (findArgs buildDir)))"
    and "generateDependencies env packageType arch
           (vscodeFilesOf env buildDir (stdout (spawnFind env (findArgs buildDir))))
           (runtimeFilesOf buildDir applicationName)
           (emit (SpawnSync ''find'' (findArgs buildDir)) w) = (Inr merged, w2)"
  shows "getDependenciesWith failBuild env packageType buildDir applicationName arch w =
           checkReference failBuild (sortDependencies merged) (referenceFor env packageType arch) w2"
  using assms by (auto simp: getDependenciesWith_def Let_def)


section \<open>Merging, filtering and sorting\<close>

lemma startsWith_iff: "startsWith d b \<longleftrightarrow> (\<exists>rest. d = b @ rest)"
  unfolding startsWith_def
  by (metis append_eq_conv_conj append_take_drop_id)

lemma notBundled_iff: "notBundled bundled d \<longleftrightarrow> \<not> (\<exists>b \<in> set bundled. \<exists>rest. d = b @ rest)"
  by (simp add: notBundled_def list_ex_iff startsWith_iff)

lemma set_set_add: "set (set_add x xs) = insert x (set xs)"
  by (auto simp: set_add_def)

lemma distinct_set_add: "distinct xs \<Longrightarrow> distinct (set_add x xs)"
  by (simp add: set_add_def)

lemma set_fold_set_add: "set (fold set_add xs acc) = set acc \<union> set xs"
  by (induction xs arbitrary: acc) (auto simp: set_set_add)

lemma distinct_fold_set_add: "distinct acc \<Longrightarrow> distinct (fold set_add xs acc)"
  by (induction xs arbitrary: acc) (simp_all add: distinct_set_add)

lemma set_new_Set: "set (new_Set xs) = set xs"
  by (simp add: new_Set_def set_fold_set_add)

lemma distinct_new_Set: "distinct (new_Set xs)"
  by (simp add: new_Set_def distinct_fold_set_add)

lemma set_fold_addDependency:
  "set (fold addDependency depSet acc) =
     set acc \<union> {t. (\<exists>dep \<in> set depSet. t = trim dep) \<and> t \<noteq> [] \<and> \<not> startsWith t ''#''}"
  by (induction depSet arbitrary: acc) (auto simp: addDependency_def Let_def set_set_add)

lemma distinct_fold_addDependency: "distinct acc \<Longrightarrow> distinct (fold addDependency depSet acc)"
  by (induction depSet arbitrary: acc) (simp_all add: addDependency_def Let_def distinct_set_add)

lemma set_fold_merge:
  "set (fold (\<lambda>depSet requires. fold addDependency depSet requires) outs acc) = set acc \<union> specEntries outs"
  by (induction outs arbitrary: acc) (auto simp: specEntries_def set_fold_addDependency)

lemma distinct_fold_merge:
  "distinct acc \<Longrightarrow> distinct (fold (\<lambda>depSet requires. fold addDependency depSet requires) outs acc)"
  by (induction outs arbitrary: acc) (simp_all add: distinct_fold_addDependency)

lemma set_mergePackageDeps: "set (mergePackageDeps outs) = specEntries outs"
  by (simp add: mergePackageDeps_def set_fold_merge)

lemma distinct_mergePackageDeps: "distinct (mergePackageDeps outs)"
  by (simp add: mergePackageDeps_def distinct_fold_merge)

lemma specEntries_append: "specEntries (A @ B) = specEntries A \<union> specEntries B"
  by (auto simp: specEntries_def)

lemma sortDependencies_props:
  "sorted (sortDependencies merged)"
  "distinct merged \<Longrightarrow> distinct (sortDependencies merged)"
  "set (sortDependencies merged) = {d \<in> set merged. notBundled bundledDeps d}"
  by (auto simp: sortDependencies_def)

lemma checkReference_Inr: "checkReference failBuild s reference w = (Inr deps, w') \<Longrightarrow> deps = s"
  by (auto simp: checkReference_def Let_def split: if_splits option.splits)

lemma generateDependencies_rpm:
  assumes "packageType \<noteq> ''deb''"
    and "generateDependencies env packageType arch vscodeFiles runtimeFiles w = (Inr merged, w')"
  shows "\<exists>outs. rpmGeneratePackageDeps env (vscodeFiles @ runtimeFiles) = Inr outs
           \<and> merged = mergePackageDeps outs"
  using assms by (auto simp: generateDependencies_def Let_def split: sum.splits)

lemma generateDependencies_deb:
  assumes "generateDependencies env ''deb'' arch vscodeFiles runtimeFiles w = (Inr merged, w')"
  shows "\<exists>chromiumSysroot vscodeSysroot w1 w2 deps1 deps2.
           getChromiumSysroot env arch w = (Inr chromiumSysroot, w1)
           \<and> getVSCodeSysroot env arch w1 = (Inr vscodeSysroot, w2)
           \<and> debGeneratePackageDeps env vscodeFiles arch vscodeSysroot = Inr deps1
           \<and> debGeneratePackageDeps env runtimeFiles arch chromiumSysroot = Inr deps2
           \<and> merged = new_Set (mergePackageDeps deps1 @ mergePackageDeps deps2)"
  using assms by (auto simp: generateDependencies_def Let_def split: sum.splits prod.splits)

lemma getDependenciesWith_Inr:
  assumes "getDependenciesWith failBuild env packageType buildDir applicationName arch w = (Inr deps, w')"
    and "\<not> truthyStatus (status (spawnFind env (findArgs buildDir)))"
  shows "\<exists>merged w2. generateDependencies env packageType arch
           (vscodeFilesOf env buildDir (stdout (spawnFind env (findArgs buildDir))))
           (runtimeFilesOf buildDir applicationName)
           (emit (SpawnSync ''find'' (findArgs buildDir)) w) = (Inr merged, w2)
         \<and> deps = sortDependencies merged"
  using assms
  by (auto simp: getDependenciesWith_def Let_def split: if_splits sum.splits prod.splits dest: checkReference_Inr)

section \<open>The marker file of the Provisioner\<close>

lemma files_emit [simp]: "files (emit e w) = files w"
  by (simp add: emit_def)

lemma files_emits [simp]: "files (emits es w) = files w"
  by (simp add: emits_def)

lemma files_writeFileSync: "files (writeFileSync p d w) = (files w)(p \<mapsto> d)"
  by (simp add: writeFileSync_def)

lemma files_rmSync: "files (rmSync p w) = (files w)(p := None)"
  by (simp add: rmSync_def)

lemma files_mkdirSync [simp]: "files (mkdirSync p w) = files w"
  by (simp add: mkdirSync_def)

lemma stamp_removed: "files (rmSyncRecursive sysroot w) (path_join [sysroot, ''.stamp'']) = None"
  by (simp add: rmSyncRecursive_def emit_def inside_stamp)

text \<open>\<^verbatim>\<open>fetchUrl\<close> writes no file of the model itself.\<close>

lemma files_fetchUrl: "files (snd (fetchUrl env io opts retries d w)) = files w"
proof (induction retries arbitrary: io w)
  case 0
  show ?case
    by (subst fetchUrl.simps) (simp split: prod.splits sum.splits)
next
  case (Suc n)
  show ?case
    by (subst fetchUrl.simps) (simp add: Suc.IH split: prod.splits sum.splits)
qed

text \<open>The download loop writes the tarball only.\<close>

lemma files_fold_append:
  "q \<noteq> tarball \<Longrightarrow> files (fold (appendFileSync tarball) chunks w) q = files w q"
  by (induction chunks arbitrary: w) (simp_all add: appendFileSync_def)

lemma files_downloadLoop:
  "q \<noteq> tarball \<Longrightarrow> files (snd (downloadLoop env url tarball i s w)) q = files w q"
proof (induction env url tarball i s w rule: downloadLoop.induct)
  case (1 env url tarball i downloadSuccess w)
  show ?case
  proof (cases "i < 3 \<and> \<not> downloadSuccess")
    case False
    then show ?thesis by (subst downloadLoop.simps) auto
  next
    case True
    obtain chunks err where h: "httpsGet env i url = (chunks, err)" by (cases "httpsGet env i url")
    let ?w2 = "fold (appendFileSync tarball) chunks (emit (HttpsGet url) (writeFileSync tarball [] w))"
    have w2: "files ?w2 q = files w q"
      using "1.prems" by (simp add: files_fold_append files_writeFileSync)
    show ?thesis
    proof (cases err)
      case None
      with True h "1.IH"(1)[OF True refl h[symmetric] refl refl None "1.prems"] w2
      show ?thesis by (subst downloadLoop.simps) simp
    next
      case (Some message)
      with True h "1.IH"(2)[OF True refl h[symmetric] refl refl Some "1.prems"] w2
      show ?thesis by (subst downloadLoop.simps) simp
    qed
  qed
qed






text \<open>
  A call of Variant A that throws either failed before the cache directory was touched (the
  checksum is missing, and the files are as they were) or leaves no marker file.
\<close>

lemma fetchUrlDefault_no_marker:
  assumes "fetchUrlDefault env io opts (mkdirSync sysroot (rmSyncRecursive sysroot w0)) = (r, w6)"
  shows "files w6 (path_join [sysroot, ''.stamp'']) = None"
proof -
  have "files (snd (fetchUrlDefault env io opts (mkdirSync sysroot (rmSyncRecursive sysroot w0))))
          = files (rmSyncRecursive sysroot w0)"
    by (simp add: fetchUrlDefault_def files_fetchUrl)
  with assms show ?thesis by (simp add: stamp_removed)
qed

lemma getVSCodeSysroot_Inl:
  assumes "getVSCodeSysroot env arch w = (Inl e, w')"
  shows "files w' = files w \<or> files w' (vscodeStamp env arch) = None"
  using assms
  by (auto simp: getVSCodeSysroot_def getVSCodeSysrootChecksum_def Let_def vscodeStamp_def
      split: if_splits prod.splits sum.splits option.splits
      dest: fetchUrlDefault_no_marker)

text \<open>
  A call of Variant B that throws either failed before the cache directory was touched (the
  files are as they were) or, unless the tarball of the manifest is downloaded to the path of
  the marker itself, leaves no marker file.
\<close>

lemma downloadLoop_other_files:
  assumes "downloadLoop env url tarball i s w = (ok, w8)" and "q \<noteq> tarball"
  shows "files w8 q = files w q"
  using files_downloadLoop[OF assms(2), of env url i s w] assms(1) by simp

lemma getChromiumSysroot_Inl:
  assumes "getChromiumSysroot env arch w = (Inl e, w')"
  shows "files w' = files w
         \<or> (\<exists>d. sysrootInfo env (sysrootArchOf arch) = Some d
                \<and> (path_join [path_join [tmpdir env, SysrootDir d], Tarball d] \<noteq> chromiumStamp env d
                     \<longrightarrow> files w' (chromiumStamp env d) = None))"
proof (cases "sysrootInfo env (sysrootArchOf arch)")
  case None
  with assms show ?thesis
    by (auto simp: getChromiumSysroot_def getElectronVersion_def Let_def sysrootArchOf_def
        split: if_splits prod.splits sum.splits option.splits)
next
  case (Some d)
  let ?sysroot = "path_join [tmpdir env, SysrootDir d]"
  have ne: "path_join [?sysroot, Tarball d] \<noteq> path_join [?sysroot, ''.stamp'']
      \<Longrightarrow> path_join [?sysroot, ''.stamp''] \<noteq> path_join [?sysroot, Tarball d]"
    by simp
  have loop: "\<And>w0 ok w8. path_join [?sysroot, Tarball d] \<noteq> path_join [?sysroot, ''.stamp''] \<Longrightarrow>
      downloadLoop env (chromiumUrl d) (path_join [?sysroot, Tarball d]) 0 False
        (emit (ConsoleLog (''Downloading '' @ chromiumUrl d)) (mkdirSync ?sysroot (rmSyncRecursive ?sysroot w0)))
        = (ok, w8) \<Longrightarrow> files w8 (path_join [?sysroot, ''.stamp'']) = None"
    using downloadLoop_other_files[OF _ ne] by (simp add: stamp_removed)
  from assms Some show ?thesis
    by (auto simp: getChromiumSysroot_def getElectronVersion_def getSha_def Let_def sysrootArchOf_def
          chromiumStamp_def files_rmSync
        split: if_splits prod.splits sum.splits option.splits
        dest: loop)
qed

section \<open>The claims\<close>




text \<open>
  C2. The comparison of \<^verbatim>\<open>getDependencies\<close> is an equality of lists, for every package type
  and architecture: once the sorted list is computed, the call throws exactly when that list
  differs from the reference list. The comparison itself flags a computed
  \<^verbatim>\<open>["libB","libA"]\<close> against the reference \<^verbatim>\<open>["libA","libB"]\<close>, although both have the same
  members.
\<close>

theorem C2_drift_is_list_equality:
  assumes "packageType = ''deb'' \<longrightarrow> isDebianArchString env arch"
    and "packageType = ''rpm'' \<longrightarrow> isRpmArchString env arch"
    and "\<not> truthyStatus (status (spawnFind env (findArgs buildDir)))"
    and "generateDependencies env packageType arch
           (vscodeFilesOf env buildDir (stdout (spawnFind env (findArgs buildDir))))
           (runtimeFilesOf buildDir applicationName)
           (emit (SpawnSync ''find'' (findArgs buildDir)) w) = (Inr merged, w2)"
    and "referenceFor env packageType arch = Some reference"
  shows "(isl (fst (getDependencies env packageType buildDir applicationName arch w))
            \<longleftrightarrow> sortDependencies merged \<noteq> reference)
    \<and> (\<forall>s r w'. isl (fst (checkReference True s (Some r) w')) \<longleftrightarrow> s \<noteq> r)
    \<and> isl (fst (checkReference True [''libB'', ''libA''] (Some [''libA'', ''libB'']) w))
    \<and> set [''libB'', ''libA''] = set [''libA'', ''libB'']"
proof -
  have "getDependencies env packageType buildDir applicationName arch w =
          checkReference True (sortDependencies merged) (Some reference) w2"
    unfolding getDependencies_def FAIL_BUILD_FOR_NEW_DEPENDENCIES_def
    using getDependenciesWith_reached[OF assms(1-4)] assms(5) by simp
  then show ?thesis
    by (auto simp: checkReference_Some)
qed

theorem C2_drift_is_list_equality_witness:
  "referenceFor (exampleEnv\<lparr>rpmReferenceGeneratedDepsByArch := [''x86_64'' \<mapsto> [''libpthread.so.0'', ''libc.so.6'']]\<rparr>)
      ''rpm'' ''x86_64'' = Some [''libpthread.so.0'', ''libc.so.6'']
   \<and> sortDependencies [''libpthread.so.0'', ''libc.so.6''] = [''libc.so.6'', ''libpthread.so.0'']
   \<and> isl (fst (getDependencies
         (exampleEnv\<lparr>rpmReferenceGeneratedDepsByArch := [''x86_64'' \<mapsto> [''libpthread.so.0'', ''libc.so.6'']]\<rparr>)
         ''rpm'' ''/build'' ''code'' ''x86_64'' emptyWorld))"
proof -
  let ?env = "exampleEnv\<lparr>rpmReferenceGeneratedDepsByArch := [''x86_64'' \<mapsto> [''libpthread.so.0'', ''libc.so.6'']]\<rparr>"
  let ?w1 = "emit (SpawnSync ''find'' (findArgs ''/build'')) emptyWorld"
  let ?gen = "generateDependencies ?env ''rpm'' ''x86_64''
           (vscodeFilesOf ?env ''/build'' (stdout (spawnFind ?env (findArgs ''/build''))))
           (runtimeFilesOf ''/build'' ''code'') ?w1"
  have a: "''rpm'' = ''deb'' \<longrightarrow> isDebianArchString ?env ''x86_64''" by simp
  have b: "''rpm'' = ''rpm'' \<longrightarrow> isRpmArchString ?env ''x86_64''" by (simp add: exampleEnv_def)
  have f: "\<not> truthyStatus (status (spawnFind ?env (findArgs ''/build'')))"
    by (simp add: exampleEnv_def truthyStatus_def)
  have "fst ?gen = Inr [''libpthread.so.0'', ''libc.so.6'']" by code_simp
  then have g: "?gen = (Inr [''libpthread.so.0'', ''libc.so.6''], snd ?gen)"
    by (simp add: prod_eq_iff)
  have r: "referenceFor ?env ''rpm'' ''x86_64'' = Some [''libpthread.so.0'', ''libc.so.6'']"
    by (simp add: referenceFor_def)
  have s: "sortDependencies [''libpthread.so.0'', ''libc.so.6''] = [''libc.so.6'', ''libpthread.so.0'']"
    by code_simp
  from C2_drift_is_list_equality[OF a b f g r, THEN conjunct1] r s show ?thesis by simp
qed

text \<open>
  C3. Once the sorted list is computed and the reference list looked up: when the two differ,
  the message lists both (the reference after \<open>Old:\<close>, the computed list after \<open>New:\<close>, one
  entry a line); with the toggle set, which is how the source sets it, the call throws an
  error with that message, and with the toggle unset it writes the message to the warning
  console and returns the whole sorted list. When the two are equal the call returns the
  sorted list, with no error and no further effect.
\<close>

theorem C3_drift_outcome:
  assumes "packageType = ''deb'' \<longrightarrow> isDebianArchString env arch"
    and "packageType = ''rpm'' \<longrightarrow> isRpmArchString env arch"
    and "\<not> truthyStatus (status (spawnFind env (findArgs buildDir)))"
    and "generateDependencies env packageType arch
           (vscodeFilesOf env buildDir (stdout (spawnFind env (findArgs buildDir))))
           (runtimeFilesOf buildDir applicationName)
           (emit (SpawnSync ''find'' (findArgs buildDir)) w) = (Inr merged, w2)"
    and "referenceFor env packageType arch = Some reference"
  shows "(sortDependencies merged \<noteq> reference \<longrightarrow>
            getDependenciesWith True env packageType buildDir applicationName arch w =
              (Inl (Error (failMessageOf reference (sortDependencies merged))), w2)
          \<and> getDependenciesWith False env packageType buildDir applicationName arch w =
              (Inr (sortDependencies merged),
               emit (ConsoleWarn (failMessageOf reference (sortDependencies merged))) w2))
    \<and> (sortDependencies merged = reference \<longrightarrow>
            getDependenciesWith failBuild env packageType buildDir applicationName arch w =
              (Inr (sortDependencies merged), w2))
    \<and> getDependencies = getDependenciesWith True
    \<and> failMessageOf reference (sortDependencies merged) =
          ''The dependencies list has changed.'' @ ''\<newline>Old:\<newline>'' @ join ''\<newline>'' reference
            @ ''\<newline>New:\<newline>'' @ join ''\<newline>'' (sortDependencies merged)"
  using getDependenciesWith_reached[OF assms(1-4)] assms(5)
  by (simp add: checkReference_Some getDependencies_def FAIL_BUILD_FOR_NEW_DEPENDENCIES_def
        failMessageOf_def)

theorem C3_drift_outcome_witness:
  "fst (getDependenciesWith True
          (exampleEnv\<lparr>debGeneratePackageDeps := \<lambda>files arch sysroot. Inr [[''libpthread.so.0'', ''libnew.so.1''], [''libc.so.6'']]\<rparr>)
          ''deb'' ''/build'' ''code'' ''amd64'' emptyWorld) =
     Inl (Error (''The dependencies list has changed.'' @ ''\<newline>Old:\<newline>'' @ ''libc.so.6\<newline>libpthread.so.0''
            @ ''\<newline>New:\<newline>'' @ ''libc.so.6\<newline>libnew.so.1\<newline>libpthread.so.0''))
   \<and> fst (getDependenciesWith False
          (exampleEnv\<lparr>debGeneratePackageDeps := \<lambda>files arch sysroot. Inr [[''libpthread.so.0'', ''libnew.so.1''], [''libc.so.6'']]\<rparr>)
          ''deb'' ''/build'' ''code'' ''amd64'' emptyWorld) =
     Inr [''libc.so.6'', ''libnew.so.1'', ''libpthread.so.0'']"
proof -
  let ?env = "exampleEnv\<lparr>debGeneratePackageDeps := \<lambda>files arch sysroot. Inr [[''libpthread.so.0'', ''libnew.so.1''], [''libc.so.6'']]\<rparr>"
  let ?w1 = "emit (SpawnSync ''find'' (findArgs ''/build'')) emptyWorld"
  let ?gen = "generateDependencies ?env ''deb'' ''amd64''
           (vscodeFilesOf ?env ''/build'' (stdout (spawnFind ?env (findArgs ''/build''))))
           (runtimeFilesOf ''/build'' ''code'') ?w1"
  have a: "''deb'' = ''deb'' \<longrightarrow> isDebianArchString ?env ''amd64''" by (simp add: exampleEnv_def)
  have b: "''deb'' = ''rpm'' \<longrightarrow> isRpmArchString ?env ''amd64''" by simp
  have f: "\<not> truthyStatus (status (spawnFind ?env (findArgs ''/build'')))"
    by (simp add: exampleEnv_def truthyStatus_def)
  have "fst ?gen = Inr [''libpthread.so.0'', ''libnew.so.1'', ''libc.so.6'']" by code_simp
  then have g: "?gen = (Inr [''libpthread.so.0'', ''libnew.so.1'', ''libc.so.6''], snd ?gen)"
    by (simp add: prod_eq_iff)
  have r: "referenceFor ?env ''deb'' ''amd64'' = Some [''libc.so.6'', ''libpthread.so.0'']"
    by (simp add: referenceFor_def exampleEnv_def)
  have s: "sortDependencies [''libpthread.so.0'', ''libnew.so.1'', ''libc.so.6'']
             = [''libc.so.6'', ''libnew.so.1'', ''libpthread.so.0'']"
    by code_simp
  from C3_drift_outcome[OF a b f g r, THEN conjunct1] s
  show ?thesis by (simp add: failMessageOf_def)
qed




text \<open>
  C5, evaluated where the code breaks it. In Variant B the check after \<^verbatim>\<open>tar\<close> is
  \<^verbatim>\<open>if (proc.status)\<close>: when \<^verbatim>\<open>tar\<close> is terminated by a signal its status is \<^verbatim>\<open>null\<close>, the check
  does not throw, and the marker is written although the extraction did not complete.
\<close>

theorem C5_marker_written_after_tar_killed:
  "status (spawnTar (exampleEnv\<lparr>spawnTar := \<lambda>args. exitStatus None\<rparr>)
            [''xf'', ''/tmp/debian-sysroot/sysroot.tar.xz'', ''-C'', ''/tmp/debian-sysroot'']) = None
   \<and> fst (getChromiumSysroot (exampleEnv\<lparr>spawnTar := \<lambda>args. exitStatus None\<rparr>) ''amd64'' emptyWorld)
       = Inr ''/tmp/debian-sysroot''
   \<and> files (snd (getChromiumSysroot (exampleEnv\<lparr>spawnTar := \<lambda>args. exitStatus None\<rparr>) ''amd64'' emptyWorld))
        ''/tmp/debian-sysroot/.stamp''
       = Some ''https://msftelectron.blob.core.windows.net/sysroots/toolchain/def/sysroot.tar.xz''
   \<and> last (trace (snd (getChromiumSysroot (exampleEnv\<lparr>spawnTar := \<lambda>args. exitStatus None\<rparr>) ''amd64'' emptyWorld)))
       = WriteFileSync ''/tmp/debian-sysroot/.stamp''
           ''https://msftelectron.blob.core.windows.net/sysroots/toolchain/def/sysroot.tar.xz''"
  by code_simp

text \<open>
  C6. The filter of \<^verbatim>\<open>getDependencies\<close> removes exactly the dependency strings that start with
  one of the bundled names: when the call returns a list after a successful \<^verbatim>\<open>find\<close>, its
  members are the merged dependencies of which no name of \<^verbatim>\<open>bundledDeps\<close> is a prefix. The
  match is at position 0: with \<^verbatim>\<open>"libfoo.so"\<close> in the list, \<^verbatim>\<open>"libfoo.so.2"\<close> is removed and
  \<^verbatim>\<open>"notlibfoo.so"\<close> is kept; with the list of the source, \<^verbatim>\<open>"libffmpeg.so.58"\<close> is removed and
  \<^verbatim>\<open>"notlibffmpeg.so"\<close> is kept.
\<close>

theorem C6_bundled_prefix_filter:
  assumes "getDependenciesWith failBuild env packageType buildDir applicationName arch w = (Inr deps, w')"
    and "\<not> truthyStatus (status (spawnFind env (findArgs buildDir)))"
  shows "(\<exists>merged w2. generateDependencies env packageType arch
             (vscodeFilesOf env buildDir (stdout (spawnFind env (findArgs buildDir))))
             (runtimeFilesOf buildDir applicationName)
             (emit (SpawnSync ''find'' (findArgs buildDir)) w) = (Inr merged, w2)
           \<and> set deps = {d \<in> set merged. \<not> (\<exists>b \<in> set bundledDeps. \<exists>rest. d = b @ rest)})
    \<and> (\<forall>bundled ds. filter (notBundled bundled) ds =
          filter (\<lambda>d. \<not> (\<exists>b \<in> set bundled. \<exists>rest. d = b @ rest)) ds)
    \<and> filter (notBundled [''libfoo.so'']) [''libfoo.so.2'', ''notlibfoo.so''] = [''notlibfoo.so'']
    \<and> sortDependencies [''libffmpeg.so.58'', ''notlibffmpeg.so''] = [''notlibffmpeg.so'']"
proof (intro conjI allI)
  from getDependenciesWith_Inr[OF assms] obtain merged w2 where
    g: "generateDependencies env packageType arch
             (vscodeFilesOf env buildDir (stdout (spawnFind env (findArgs buildDir))))
             (runtimeFilesOf buildDir applicationName)
             (emit (SpawnSync ''find'' (findArgs buildDir)) w) = (Inr merged, w2)"
    and d: "deps = sortDependencies merged" by blast
  have "set deps = {d \<in> set merged. \<not> (\<exists>b \<in> set bundledDeps. \<exists>rest. d = b @ rest)}"
    unfolding d sortDependencies_props(3) by (simp add: notBundled_iff)
  with g show "\<exists>merged w2. generateDependencies env packageType arch
             (vscodeFilesOf env buildDir (stdout (spawnFind env (findArgs buildDir))))
             (runtimeFilesOf buildDir applicationName)
             (emit (SpawnSync ''find'' (findArgs buildDir)) w) = (Inr merged, w2)
           \<and> set deps = {d \<in> set merged. \<not> (\<exists>b \<in> set bundledDeps. \<exists>rest. d = b @ rest)}"
    by blast
next
  fix bundled ds
  show "filter (notBundled bundled) ds = filter (\<lambda>d. \<not> (\<exists>b \<in> set bundled. \<exists>rest. d = b @ rest)) ds"
    by (rule filter_cong) (simp_all only: notBundled_iff)
next
  show "filter (notBundled [''libfoo.so'']) [''libfoo.so.2'', ''notlibfoo.so''] = [''notlibfoo.so'']"
    by (simp add: notBundled_def startsWith_def)
next
  show "sortDependencies [''libffmpeg.so.58'', ''notlibffmpeg.so''] = [''notlibffmpeg.so'']"
    by (simp add: sortDependencies_def notBundled_def startsWith_def bundledDeps_def)
qed

theorem C6_bundled_prefix_filter_witness:
  "fst (getDependencies exampleEnv ''deb'' ''/build'' ''code'' ''amd64'' emptyWorld)
     = Inr [''libc.so.6'', ''libpthread.so.0'']
   \<and> (\<exists>merged w2. generateDependencies exampleEnv ''deb'' ''amd64''
             (vscodeFilesOf exampleEnv ''/build'' (stdout (spawnFind exampleEnv (findArgs ''/build''))))
             (runtimeFilesOf ''/build'' ''code'')
             (emit (SpawnSync ''find'' (findArgs ''/build'')) emptyWorld) = (Inr merged, w2)
           \<and> ''libEGL.so.1'' \<in> set merged
           \<and> set [''libc.so.6'', ''libpthread.so.0''] =
               {d \<in> set merged. \<not> (\<exists>b \<in> set bundledDeps. \<exists>rest. d = b @ rest)})"
proof -
  let ?run = "getDependenciesWith True exampleEnv ''deb'' ''/build'' ''code'' ''amd64'' emptyWorld"
  let ?gen = "generateDependencies exampleEnv ''deb'' ''amd64''
             (vscodeFilesOf exampleEnv ''/build'' (stdout (spawnFind exampleEnv (findArgs ''/build''))))
             (runtimeFilesOf ''/build'' ''code'')
             (emit (SpawnSync ''find'' (findArgs ''/build'')) emptyWorld)"
  have fr: "fst ?run = Inr [''libc.so.6'', ''libpthread.so.0'']" by code_simp
  then have r: "?run = (Inr [''libc.so.6'', ''libpthread.so.0''], snd ?run)"
    by (simp add: prod_eq_iff)
  have f: "\<not> truthyStatus (status (spawnFind exampleEnv (findArgs ''/build'')))"
    by (simp add: exampleEnv_def truthyStatus_def)
  have m: "fst ?gen = Inr [''libpthread.so.0'', ''libc.so.6'', ''libEGL.so.1'']" by code_simp
  from C6_bundled_prefix_filter[OF r f, THEN conjunct1] obtain merged w2 where
    g: "?gen = (Inr merged, w2)"
    and s: "set [''libc.so.6'', ''libpthread.so.0''] =
               {d \<in> set merged. \<not> (\<exists>b \<in> set bundledDeps. \<exists>rest. d = b @ rest)}"
    by blast
  from g m have "''libEGL.so.1'' \<in> set merged" by simp
  with g s have "\<exists>merged w2. ?gen = (Inr merged, w2)
           \<and> ''libEGL.so.1'' \<in> set merged
           \<and> set [''libc.so.6'', ''libpthread.so.0''] =
               {d \<in> set merged. \<not> (\<exists>b \<in> set bundledDeps. \<exists>rest. d = b @ rest)}"
    by blast
  moreover have "fst (getDependencies exampleEnv ''deb'' ''/build'' ''code'' ''amd64'' emptyWorld)
     = Inr [''libc.so.6'', ''libpthread.so.0'']"
    using fr by (simp add: getDependencies_def FAIL_BUILD_FOR_NEW_DEPENDENCIES_def)
  ultimately show ?thesis by (rule conjI[rotated])
qed

text \<open>
  C7. When \<^verbatim>\<open>getDependencies\<close> returns a list after a successful \<^verbatim>\<open>find\<close>, the extractor has
  returned its per-file sets (for \<^verbatim>\<open>'deb'\<close> those of the native modules followed by those of
  the runtime files, each with its sysroot), and the list is sorted, has no duplicates, and
  its members are exactly the trimmed entries of those sets that are non-empty, do not start
  with \<open>#\<close> and do not start with a bundled name. The empty string and a string that starts
  with \<open>#\<close> are never members. Merging \<^verbatim>\<open>{"libA"}\<close> with \<^verbatim>\<open>{"libA","libB"}\<close> gives exactly
  \<^verbatim>\<open>["libA","libB"]\<close>.
\<close>

theorem C7_final_list:
  assumes "getDependenciesWith failBuild env packageType buildDir applicationName arch w = (Inr deps, w')"
    and "\<not> truthyStatus (status (spawnFind env (findArgs buildDir)))"
  shows "sorted deps \<and> distinct deps \<and> [] \<notin> set deps \<and> (\<forall>d \<in> set deps. \<not> startsWith d ''#'')
    \<and> (\<exists>outs.
          (if packageType = ''deb'' then
             (\<exists>chromiumSysroot vscodeSysroot w1 w2 deps1 deps2.
                getChromiumSysroot env arch (emit (SpawnSync ''find'' (findArgs buildDir)) w)
                  = (Inr chromiumSysroot, w1)
                \<and> getVSCodeSysroot env arch w1 = (Inr vscodeSysroot, w2)
                \<and> debGeneratePackageDeps env
                     (vscodeFilesOf env buildDir (stdout (spawnFind env (findArgs buildDir))))
                     arch vscodeSysroot = Inr deps1
                \<and> debGeneratePackageDeps env (runtimeFilesOf buildDir applicationName)
                     arch chromiumSysroot = Inr deps2
                \<and> outs = deps1 @ deps2)
           else rpmGeneratePackageDeps env
                  (vscodeFilesOf env buildDir (stdout (spawnFind env (findArgs buildDir)))
                     @ runtimeFilesOf buildDir applicationName) = Inr outs)
          \<and> set deps = {t \<in> specEntries outs. \<not> (\<exists>b \<in> set bundledDeps. \<exists>rest. t = b @ rest)})
    \<and> sortDependencies (mergePackageDeps [[''libA''], [''libA'', ''libB'']]) = [''libA'', ''libB'']"
proof -
  let ?vf = "vscodeFilesOf env buildDir (stdout (spawnFind env (findArgs buildDir)))"
  let ?rf = "runtimeFilesOf buildDir applicationName"
  let ?w1 = "emit (SpawnSync ''find'' (findArgs buildDir)) w"
  from getDependenciesWith_Inr[OF assms] obtain merged w2 where
    g: "generateDependencies env packageType arch ?vf ?rf ?w1 = (Inr merged, w2)"
    and d: "deps = sortDependencies merged" by blast
  have outs: "\<exists>outs.
          (if packageType = ''deb'' then
             (\<exists>chromiumSysroot vscodeSysroot w1 w2 deps1 deps2.
                getChromiumSysroot env arch ?w1 = (Inr chromiumSysroot, w1)
                \<and> getVSCodeSysroot env arch w1 = (Inr vscodeSysroot, w2)
                \<and> debGeneratePackageDeps env ?vf arch vscodeSysroot = Inr deps1
                \<and> debGeneratePackageDeps env ?rf arch chromiumSysroot = Inr deps2
                \<and> outs = deps1 @ deps2)
           else rpmGeneratePackageDeps env (?vf @ ?rf) = Inr outs)
          \<and> distinct merged \<and> set merged = specEntries outs"
  proof (cases "packageType = ''deb''")
    case True
    with g generateDependencies_deb[of env arch ?vf ?rf ?w1 merged w2]
    obtain chromiumSysroot vscodeSysroot w1' w2' deps1 deps2 where
      *: "getChromiumSysroot env arch ?w1 = (Inr chromiumSysroot, w1')"
         "getVSCodeSysroot env arch w1' = (Inr vscodeSysroot, w2')"
         "debGeneratePackageDeps env ?vf arch vscodeSysroot = Inr deps1"
         "debGeneratePackageDeps env ?rf arch chromiumSysroot = Inr deps2"
      and m: "merged = new_Set (mergePackageDeps deps1 @ mergePackageDeps deps2)"
      by blast
    from m have "distinct merged \<and> set merged = specEntries (deps1 @ deps2)"
      by (simp add: distinct_new_Set set_new_Set set_mergePackageDeps specEntries_append)
    with * True show ?thesis by auto
  next
    case False
    with g generateDependencies_rpm[of packageType env arch ?vf ?rf ?w1 merged w2]
    obtain outs where "rpmGeneratePackageDeps env (?vf @ ?rf) = Inr outs"
      and "merged = mergePackageDeps outs" by blast
    with False show ?thesis
      by (auto simp: distinct_mergePackageDeps set_mergePackageDeps)
  qed
  then obtain outs where
    o: "(if packageType = ''deb'' then
             (\<exists>chromiumSysroot vscodeSysroot w1 w2 deps1 deps2.
                getChromiumSysroot env arch ?w1 = (Inr chromiumSysroot, w1)
                \<and> getVSCodeSysroot env arch w1 = (Inr vscodeSysroot, w2)
                \<and> debGeneratePackageDeps env ?vf arch vscodeSysroot = Inr deps1
                \<and> debGeneratePackageDeps env ?rf arch chromiumSysroot = Inr deps2
                \<and> outs = deps1 @ deps2)
           else rpmGeneratePackageDeps env (?vf @ ?rf) = Inr outs)"
    and dm: "distinct merged" and sm: "set merged = specEntries outs" by blast
  have s: "set deps = {t \<in> specEntries outs. \<not> (\<exists>b \<in> set bundledDeps. \<exists>rest. t = b @ rest)}"
    unfolding d sortDependencies_props(3) sm by (simp add: notBundled_iff)
  have e: "[] \<notin> set deps" "\<forall>d \<in> set deps. \<not> startsWith d ''#''"
    unfolding s by (auto simp: specEntries_def)
  have x: "sortDependencies (mergePackageDeps [[''libA''], [''libA'', ''libB'']]) = [''libA'', ''libB'']"
    by code_simp
  from o s have "\<exists>outs.
          (if packageType = ''deb'' then
             (\<exists>chromiumSysroot vscodeSysroot w1 w2 deps1 deps2.
                getChromiumSysroot env arch ?w1 = (Inr chromiumSysroot, w1)
                \<and> getVSCodeSysroot env arch w1 = (Inr vscodeSysroot, w2)
                \<and> debGeneratePackageDeps env ?vf arch vscodeSysroot = Inr deps1
                \<and> debGeneratePackageDeps env ?rf arch chromiumSysroot = Inr deps2
                \<and> outs = deps1 @ deps2)
           else rpmGeneratePackageDeps env (?vf @ ?rf) = Inr outs)
          \<and> set deps = {t \<in> specEntries outs. \<not> (\<exists>b \<in> set bundledDeps. \<exists>rest. t = b @ rest)}"
    by blast
  with e x dm show ?thesis
    unfolding d by (simp add: sortDependencies_props)
qed

theorem C7_final_list_witness:
  "rpmGeneratePackageDeps exampleEnv
      (vscodeFilesOf exampleEnv ''/build'' (stdout (spawnFind exampleEnv (findArgs ''/build'')))
         @ runtimeFilesOf ''/build'' ''code'')
     = Inr [[''libpthread.so.0'', '' libc.so.6 ''], [''libc.so.6'', ''# comment'', []]]
   \<and> fst (getDependencies exampleEnv ''rpm'' ''/build'' ''code'' ''x86_64'' emptyWorld)
       = Inr [''libc.so.6'', ''libpthread.so.0'']
   \<and> set [''libc.so.6'', ''libpthread.so.0''] =
       {t \<in> specEntries [[''libpthread.so.0'', '' libc.so.6 ''], [''libc.so.6'', ''# comment'', []]].
          \<not> (\<exists>b \<in> set bundledDeps. \<exists>rest. t = b @ rest)}"
proof -
  let ?run = "getDependenciesWith True exampleEnv ''rpm'' ''/build'' ''code'' ''x86_64'' emptyWorld"
  have fr: "fst ?run = Inr [''libc.so.6'', ''libpthread.so.0'']" by code_simp
  then have r: "?run = (Inr [''libc.so.6'', ''libpthread.so.0''], snd ?run)"
    by (simp add: prod_eq_iff)
  have f: "\<not> truthyStatus (status (spawnFind exampleEnv (findArgs ''/build'')))"
    by (simp add: exampleEnv_def truthyStatus_def)
  have x: "rpmGeneratePackageDeps exampleEnv
      (vscodeFilesOf exampleEnv ''/build'' (stdout (spawnFind exampleEnv (findArgs ''/build'')))
         @ runtimeFilesOf ''/build'' ''code'')
     = Inr [[''libpthread.so.0'', '' libc.so.6 ''], [''libc.so.6'', ''# comment'', []]]"
    by (simp add: exampleEnv_def)
  from C7_final_list[OF r f] obtain outs where
    o: "rpmGeneratePackageDeps exampleEnv
      (vscodeFilesOf exampleEnv ''/build'' (stdout (spawnFind exampleEnv (findArgs ''/build'')))
         @ runtimeFilesOf ''/build'' ''code'') = Inr outs"
    and s: "set [''libc.so.6'', ''libpthread.so.0''] =
       {t \<in> specEntries outs. \<not> (\<exists>b \<in> set bundledDeps. \<exists>rest. t = b @ rest)}"
    by auto
  from o x have "outs = [[''libpthread.so.0'', '' libc.so.6 ''], [''libc.so.6'', ''# comment'', []]]"
    by simp
  with s have "set [''libc.so.6'', ''libpthread.so.0''] =
       {t \<in> specEntries [[''libpthread.so.0'', '' libc.so.6 ''], [''libc.so.6'', ''# comment'', []]].
          \<not> (\<exists>b \<in> set bundledDeps. \<exists>rest. t = b @ rest)}"
    by simp
  moreover have "fst (getDependencies exampleEnv ''rpm'' ''/build'' ''code'' ''x86_64'' emptyWorld)
       = Inr [''libc.so.6'', ''libpthread.so.0'']"
    using fr by (simp add: getDependencies_def FAIL_BUILD_FOR_NEW_DEPENDENCIES_def)
  ultimately show ?thesis using x by blast
qed

text \<open>
  C8. For an architecture token that the type guard of the package type rejects
  (\<^verbatim>\<open>isDebianArchString\<close> for \<^verbatim>\<open>'deb'\<close>, \<^verbatim>\<open>isRpmArchString\<close> for \<^verbatim>\<open>'rpm'\<close>),
  \<^verbatim>\<open>getDependencies\<close> throws the invalid-architecture error and leaves the world as it was:
  no file was read or written, no subprocess was spawned, nothing was fetched, and the trace
  of effects is unchanged.
\<close>

theorem C8_invalid_arch_before_any_access:
  "(\<not> isDebianArchString env arch \<longrightarrow>
      getDependencies env ''deb'' buildDir applicationName arch w =
        (Inl (Error (''Invalid Debian arch string '' @ arch)), w))
   \<and> (\<not> isRpmArchString env arch \<longrightarrow>
      getDependencies env ''rpm'' buildDir applicationName arch w =
        (Inl (Error (''Invalid RPM arch string '' @ arch)), w))"
  by (simp add: getDependencies_def getDependenciesWith_def)

theorem C8_invalid_arch_before_any_access_witness:
  "\<not> isDebianArchString exampleEnv ''x86_64''
   \<and> getDependencies exampleEnv ''deb'' ''/build'' ''code'' ''x86_64'' emptyWorld =
        (Inl (Error ''Invalid Debian arch string x86_64''), emptyWorld)
   \<and> \<not> isRpmArchString exampleEnv ''amd64''
   \<and> getDependencies exampleEnv ''rpm'' ''/build'' ''code'' ''amd64'' emptyWorld =
        (Inl (Error ''Invalid RPM arch string amd64''), emptyWorld)"
proof -
  have d: "\<not> isDebianArchString exampleEnv ''x86_64''" by (simp add: exampleEnv_def)
  have r: "\<not> isRpmArchString exampleEnv ''amd64''" by (simp add: exampleEnv_def)
  from C8_invalid_arch_before_any_access[of exampleEnv "''x86_64''" "''/build''" "''code''" emptyWorld]
    C8_invalid_arch_before_any_access[of exampleEnv "''amd64''" "''/build''" "''code''" emptyWorld]
    d r
  show ?thesis by simp
qed





end
